theory Spec2Isabelle
  imports
    Complex_Main
    "HOL-Library.Char_ord"
    "HOL-Library.List_Lexorder"
    "HOL-Library.Product_Lexorder"
    "HOL-Library.Multiset"
begin

section \<open>The diplomacy index dashboard: aggregation and ranking\<close>

text \<open>
  The program (\<^verbatim>\<open>app3.py\<close>) reads one sheet of diplomatic posts, one row per post, and
  derives its views with pandas: the long form (posts per country and year), the wide
  pivot, the ranking table of one year, the rank change between two years, the footprint
  of one country and the trend of a selection of countries.

  A table is modelled by its rows, a record per row, in the order pandas keeps them. A
  text column holds strings and \<^verbatim>\<open>Year\<close> holds integers. The numbers pandas keeps
  as \<^verbatim>\<open>float64\<close> here (ranks, means of counts) are integers or quotients of integers,
  and they are modelled exactly, as \<^typ>\<open>int\<close> and \<^typ>\<open>real\<close>; a missing cell
  (\<^verbatim>\<open>NaN\<close>) is \<^const>\<open>None\<close>. pandas reads a blank cell of the sheet as
  \<^verbatim>\<open>NaN\<close> and leaves it out of groups and counts, so the columns that the program
  groups, filters and counts by (\<^verbatim>\<open>COUNTRY\<close>, \<^verbatim>\<open>Year\<close>, \<^verbatim>\<open>POST TYPE TITLE\<close>,
  \<^verbatim>\<open>POST COUNTRY\<close>) hold an optional value, \<^const>\<open>None\<close> for a blank cell; the
  columns that are only carried along (rank, population, GDP) are taken as filled. Where
  the program depends on the labels of the columns, the labels are part of the model.
\<close>

subsection \<open>Errors\<close>

text \<open>
  \<^verbatim>\<open>st.error(...); st.stop()\<close> halts the script: \<open>Stop_load\<close> after a failed read,
  \<open>Stop_schema\<close> after the check of the required columns. The other constructors are
  Python exceptions that nothing catches.
\<close>

datatype error =
    Stop_load
  | Stop_schema
  | KeyError string
  | ValueError string
  | Uncaught

subsection \<open>Python's \<^verbatim>\<open>str\<close> on integers\<close>

fun str_nat :: "nat \<Rightarrow> string" where
  "str_nat n =
     (if n < 10 then [char_of (48 + n)]
      else str_nat (n div 10) @ [char_of (48 + n mod 10)])"

declare str_nat.simps [simp del]

definition str_int :: "int \<Rightarrow> string" where
  "str_int i = (if i < 0 then CHR ''-'' # str_nat (nat (- i)) else str_nat (nat i))"

subsection \<open>The sheet and the long form\<close>

text \<open>The column \<^verbatim>\<open>Year\<close> is in the sheet, where a cell may be blank, and in the long
  form, where it never is.\<close>

record 'y year_row =
  Year :: 'y

text \<open>A row of the sheet (\<^verbatim>\<open>df_detail\<close>); the fields are its columns
  \<^verbatim>\<open>Year\<close>, \<^verbatim>\<open>COUNTRY\<close>, \<^verbatim>\<open>OVERALL RANK\<close>, \<^verbatim>\<open>POPULATION (M)\<close>,
  \<^verbatim>\<open>GDP (B, USD)\<close>, \<^verbatim>\<open>POST TYPE TITLE\<close> and \<^verbatim>\<open>POST COUNTRY\<close>.\<close>

record raw_post = "int option year_row" +
  COUNTRY :: "string option"
  OVERALL_RANK :: int
  POPULATION_M :: real
  GDP_B_USD :: real
  POST_TYPE_TITLE :: "string option"
  POST_COUNTRY :: "string option"

text \<open>The sheet as \<^verbatim>\<open>pd.read_excel\<close> returns it: the labels of its columns and its rows.
  A field of a row is read only after the label of its column has been found.\<close>

record sheet =
  columns :: "string list"
  rows :: "raw_post list"

datatype read_excel =
    Read_ok sheet
  | Read_FileNotFoundError
  | Read_ValueError
  | Read_other_exception

text \<open>A row of \<^verbatim>\<open>df_long\<close>: columns \<^verbatim>\<open>Name\<close>, \<^verbatim>\<open>Year\<close>, \<^verbatim>\<open>Posts\<close>.\<close>

record long_row = "int year_row" +
  Name :: string
  Posts :: nat

text \<open>The values of a column without its blank cells (\<^verbatim>\<open>dropna\<close>).\<close>

fun dropna :: "'a option list \<Rightarrow> 'a list" where
  "dropna [] = []"
| "dropna (None # xs) = dropna xs"
| "dropna (Some x # xs) = x # dropna xs"

text \<open>\<^verbatim>\<open>groupby(keys).size()\<close>: one entry per distinct key, in ascending order of the
  keys (\<^verbatim>\<open>sort=True\<close>), its value the number of rows that carry the key.\<close>

definition groupby_size :: "'k::linorder list \<Rightarrow> ('k \<times> nat) list" where
  "groupby_size ks = map (\<lambda>k. (k, count_list ks k)) (sort (remdups ks))"

text \<open>
  Lines 28 to 30. \<^verbatim>\<open>groupby(['COUNTRY', 'Year'])\<close> leaves out the rows in which one of
  the two cells is blank (\<^verbatim>\<open>dropna=True\<close>): such a row has no key. The sizes are
  integers, so \<^verbatim>\<open>pd.to_numeric(..., errors='coerce')\<close> returns them as they are,
  \<^verbatim>\<open>dropna()\<close> has nothing to drop, and the assignment, which aligns on the row index,
  puts every size back in its row: line 30 changes nothing.
\<close>

definition group_key :: "raw_post \<Rightarrow> (string \<times> int) option" where
  "group_key r =
     (case COUNTRY r of
        None \<Rightarrow> None
      | Some c \<Rightarrow> (case Year r of None \<Rightarrow> None | Some y \<Rightarrow> Some (c, y)))"

definition to_long_form :: "raw_post list \<Rightarrow> long_row list" where
  "to_long_form df_detail =
     map (\<lambda>((c, y), n). \<lparr>Year = y, Name = c, Posts = n\<rparr>)
       (groupby_size (dropna (map group_key df_detail)))"

subsection \<open>Pivot tables\<close>

text \<open>
  \<^verbatim>\<open>pivot_table(index=i, columns=c, values=v)\<close> with its defaults: the row labels and the
  column labels are the distinct values, ascending; a cell is the mean (\<^verbatim>\<open>aggfunc='mean'\<close>)
  of the values of the rows with that row label and that column label, and is missing
  when there is no such row (no \<^verbatim>\<open>fill_value\<close>).
\<close>

record ('i, 'c) pivot =
  p_index :: "'i list"
  p_columns :: "'c list"
  p_values :: "real option list list"

definition mean :: "nat list \<Rightarrow> real option" where
  "mean vs = (if vs = [] then None else Some (real (sum_list vs) / real (length vs)))"

definition pivot_table ::
  "('r \<Rightarrow> 'i::linorder) \<Rightarrow> ('r \<Rightarrow> 'c::linorder) \<Rightarrow> ('r \<Rightarrow> nat) \<Rightarrow> 'r list \<Rightarrow> ('i, 'c) pivot" where
  "pivot_table ix col val df =
     (let idx = sort (remdups (map ix df));
          cols = sort (remdups (map col df))
      in \<lparr>p_index = idx, p_columns = cols,
          p_values =
            map (\<lambda>i. map (\<lambda>c. mean (map val (filter (\<lambda>r. ix r = i \<and> col r = c) df))) cols) idx\<rparr>)"

text \<open>
  A column of integers with a blank cell is read as \<^verbatim>\<open>float64\<close>, and the years of the
  long form and the labels of the pivot are then floats: \<^verbatim>\<open>str\<close> prints the year 2020
  as \<^verbatim>\<open>2020\<close> from a column of integers and as \<^verbatim>\<open>2020.0\<close> from a column of floats.
\<close>

definition year_is_float :: "raw_post list \<Rightarrow> bool" where
  "year_is_float df_detail = list_ex (\<lambda>r. Year r = None) df_detail"

definition str_year :: "bool \<Rightarrow> int \<Rightarrow> string" where
  "str_year is_float y = (if is_float then str_int y @ ''.0'' else str_int y)"

text \<open>\<^verbatim>\<open>df_wide\<close> (lines 32 and 33): the pivot with the index turned into the column
  \<^verbatim>\<open>Name\<close>, and every column label passed through \<^verbatim>\<open>str\<close>.\<close>

record wide =
  w_columns :: "string list"
  w_rows :: "(string \<times> real option list) list"

definition to_wide :: "bool \<Rightarrow> long_row list \<Rightarrow> wide" where
  "to_wide is_float df_long =
     (let pv = pivot_table Name Year Posts df_long
      in \<lparr>w_columns = ''Name'' # map (str_year is_float) (p_columns pv),
          w_rows = zip (p_index pv) (p_values pv)\<rparr>)"

subsection \<open>Loading\<close>

definition required_cols :: "string list" where
  "required_cols = [''COUNTRY'', ''Year'', ''OVERALL RANK'']"

definition load_and_prepare_data :: "read_excel \<Rightarrow> error + (wide \<times> long_row list \<times> sheet)" where
  "load_and_prepare_data r =
     (case r of
        Read_FileNotFoundError \<Rightarrow> Inl Stop_load
      | Read_ValueError \<Rightarrow> Inl Stop_load
      | Read_other_exception \<Rightarrow> Inl Uncaught
      | Read_ok df_detail \<Rightarrow>
          if \<not> list_all (\<lambda>col. col \<in> set (columns df_detail)) required_cols
          then Inl Stop_schema
          else
            let df_long = to_long_form (rows df_detail);
                df_wide = to_wide (year_is_float (rows df_detail)) df_long
            in Inr (df_wide, df_long, df_detail))"

subsection \<open>Rank analysis\<close>

text \<open>
  \<^verbatim>\<open>Series.rank(ascending=False, method='min')\<close>: the values are put in descending
  order, equal values form a group, and every member of a group gets the smallest position
  of the group, counted from 1. The position of the first entry equal to \<open>p\<close> in the
  descending order is the number of entries before it.
\<close>

definition rank_min_desc :: "nat list \<Rightarrow> int list" where
  "rank_min_desc ps =
     (let descending = rev (sort ps)
      in map (\<lambda>p. int (Suc (length (takeWhile (\<lambda>q. q \<noteq> p) descending)))) ps)"

text \<open>Lines 41 to 44, for one year: the rows of the year, each with its rank.\<close>

definition rank_year :: "long_row list \<Rightarrow> int \<Rightarrow> (long_row \<times> int) list" where
  "rank_year df year =
     (let df_year = filter (\<lambda>r. Year r = year) df
      in zip df_year (rank_min_desc (map Posts df_year)))"

text \<open>
  A frame whose column labels matter: the column \<^verbatim>\<open>Name\<close> and, in order, the numeric
  columns with their labels. Two columns may carry the same label.
\<close>

record frame =
  f_Name :: "string list"
  f_cols :: "(string \<times> int list) list"

text \<open>
  \<^verbatim>\<open>pd.merge(left[['Name', 'Rank']], right[['Name', 'Rank']], on='Name', suffixes=(l, r))\<close>:
  the inner join, in the order of the left rows; the column \<^verbatim>\<open>Rank\<close> is in both
  frames, so the left one gets the suffix \<open>l\<close> and the right one the suffix \<open>r\<close>.
  pandas refuses a suffix only when it makes a label occur twice within one side, which a
  single \<^verbatim>\<open>Rank\<close> column cannot.
\<close>

definition inner_join :: "(string \<times> int) list \<Rightarrow> (string \<times> int) list \<Rightarrow> (string \<times> int \<times> int) list" where
  "inner_join left right =
     concat (map (\<lambda>(n, a). map (\<lambda>(m, b). (n, a, b)) (filter (\<lambda>(m, b). m = n) right)) left)"

definition merge_on_Name ::
  "(string \<times> int) list \<Rightarrow> (string \<times> int) list \<Rightarrow> string \<Rightarrow> string \<Rightarrow> frame" where
  "merge_on_Name left right l r =
     (let joined = inner_join left right
      in \<lparr>f_Name = map fst joined,
          f_cols = [(''Rank'' @ l, map (\<lambda>(n, a, b). a) joined),
                    (''Rank'' @ r, map (\<lambda>(n, a, b). b) joined)]\<rparr>)"

text \<open>
  \<^verbatim>\<open>df[key]\<close> on a numeric label: every column that carries the label. One column is a
  Series; several columns are a DataFrame with that label repeated; none is a
  \<^verbatim>\<open>KeyError\<close>.
\<close>

definition getitem :: "frame \<Rightarrow> string \<Rightarrow> error + (string \<times> int list) list" where
  "getitem df key =
     (case filter (\<lambda>(label, c). label = key) (f_cols df) of
        [] \<Rightarrow> Inl (KeyError key)
      | cs \<Rightarrow> Inr cs)"

text \<open>The difference of two selections of the same shape, column by column and row by row.\<close>

definition minus_cols ::
  "(string \<times> int list) list \<Rightarrow> (string \<times> int list) list \<Rightarrow> (string \<times> int list) list" where
  "minus_cols xs ys = map (\<lambda>((label, a), (label', b)). (label, map (\<lambda>(x, y). x - y) (zip a b))) (zip xs ys)"

text \<open>
  \<^verbatim>\<open>df[key] = value\<close> for a label on its own: a Series becomes the column (a new last
  column, or the new content of the columns that carry the label); a DataFrame of several
  columns is refused with a \<^verbatim>\<open>ValueError\<close>.
\<close>

definition setitem :: "frame \<Rightarrow> string \<Rightarrow> (string \<times> int list) list \<Rightarrow> error + frame" where
  "setitem df key v =
     (case v of
        [(label, c)] \<Rightarrow>
          Inr (df\<lparr>f_cols :=
                 (if key \<in> set (map fst (f_cols df))
                  then map (\<lambda>(l, old). if l = key then (l, c) else (l, old)) (f_cols df)
                  else f_cols df @ [(key, c)])\<rparr>)
      | _ \<Rightarrow> Inl (ValueError ''Cannot set a DataFrame with multiple columns to the single column''))"

text \<open>Lines 41 to 46: \<^verbatim>\<open>df_merged\<close> with its column \<^verbatim>\<open>Rank_Change\<close>.\<close>

definition rank_change :: "long_row list \<Rightarrow> int \<Rightarrow> int \<Rightarrow> error + frame" where
  "rank_change df start_year end_year =
     (let df_start = map (\<lambda>(r, k). (Name r, k)) (rank_year df start_year);
          df_end = map (\<lambda>(r, k). (Name r, k)) (rank_year df end_year);
          df_merged = merge_on_Name df_start df_end (''_'' @ str_int start_year) (''_'' @ str_int end_year)
      in case getitem df_merged (''Rank_'' @ str_int start_year) of
           Inl e \<Rightarrow> Inl e
         | Inr a \<Rightarrow>
            (case getitem df_merged (''Rank_'' @ str_int end_year) of
               Inl e \<Rightarrow> Inl e
             | Inr b \<Rightarrow> setitem df_merged ''Rank_Change'' (minus_cols a b)))"

text \<open>
  \<^verbatim>\<open>sort_values(by=key, ascending=...)\<close>: the label has to name one column
  (\<^verbatim>\<open>ValueError\<close> when it is not unique); the rows are put in the order of that column.
  The sort is modelled as a stable one. pandas' default (\<^verbatim>\<open>kind='quicksort'\<close>) leaves
  the order of rows with equal keys to the sorting routine; no claim below depends on it.
\<close>

definition take_rows :: "nat list \<Rightarrow> frame \<Rightarrow> frame" where
  "take_rows perm df =
     \<lparr>f_Name = map (\<lambda>i. f_Name df ! i) perm,
      f_cols = map (\<lambda>(label, c). (label, map (\<lambda>i. c ! i) perm)) (f_cols df)\<rparr>"

definition sort_values :: "frame \<Rightarrow> string \<Rightarrow> bool \<Rightarrow> error + frame" where
  "sort_values df key ascending =
     (case getitem df key of
        Inl e \<Rightarrow> Inl e
      | Inr [(label, c)] \<Rightarrow>
          Inr (take_rows
                 (sort_key (\<lambda>i. if ascending then c ! i else - (c ! i)) [0..<length c]) df)
      | Inr _ \<Rightarrow> Inl (ValueError ''The column label is not unique''))"

definition head :: "nat \<Rightarrow> frame \<Rightarrow> frame" where
  "head n df = take_rows [0..<min n (length (f_Name df))] df"

definition calculate_rank_analysis :: "long_row list \<Rightarrow> int \<Rightarrow> int \<Rightarrow> error + (frame \<times> frame)" where
  "calculate_rank_analysis df start_year end_year =
     (case rank_change df start_year end_year of
        Inl e \<Rightarrow> Inl e
      | Inr df_merged \<Rightarrow>
         (case sort_values df_merged ''Rank_Change'' False of
            Inl e \<Rightarrow> Inl e
          | Inr most_improved \<Rightarrow>
             (case sort_values df_merged ''Rank_Change'' True of
                Inl e \<Rightarrow> Inl e
              | Inr biggest_fall \<Rightarrow> Inr (head 10 most_improved, head 10 biggest_fall))))"

text \<open>The rows of a frame of rank changes, as pairs of \<^verbatim>\<open>Name\<close> and
  \<^verbatim>\<open>Rank_Change\<close>.\<close>

definition changes :: "frame \<Rightarrow> (string \<times> int) list" where
  "changes df = zip (f_Name df) (concat (map snd (filter (\<lambda>(label, c). label = ''Rank_Change'') (f_cols df))))"

subsection \<open>The ranking table of one year (tab 2)\<close>

text \<open>Reading a column that the sheet does not have is a \<^verbatim>\<open>KeyError\<close>; the labels are
  looked up in the order in which the program reads them.\<close>

definition missing_label :: "string list \<Rightarrow> string list \<Rightarrow> error option" where
  "missing_label cols labels =
     (case filter (\<lambda>l. l \<notin> set cols) labels of [] \<Rightarrow> None | l # _ \<Rightarrow> Some (KeyError l))"

text \<open>
  Line 94, \<^verbatim>\<open>groupby('COUNTRY')['POST TYPE TITLE'].value_counts().unstack(fill_value=0)\<close>:
  the posts with a country and a title are counted (\<^verbatim>\<open>groupby\<close> leaves out a blank
  country, \<^verbatim>\<open>value_counts\<close> a blank title); there is a row per country and a column per
  title that was counted, both ascending; a cell is the number of posts of that country
  with that title, 0 where there is none. A country whose titles are all blank has no row.
\<close>

definition titled :: "raw_post \<Rightarrow> (string \<times> string) option" where
  "titled r =
     (case COUNTRY r of
        None \<Rightarrow> None
      | Some c \<Rightarrow> (case POST_TYPE_TITLE r of None \<Rightarrow> None | Some t \<Rightarrow> Some (c, t)))"

record counts =
  c_index :: "string list"
  c_cols :: "(string \<times> nat list) list"

definition value_counts_unstack :: "raw_post list \<Rightarrow> counts" where
  "value_counts_unstack df =
     (let pairs = dropna (map titled df);
          idx = sort (remdups (map fst pairs));
          labels = sort (remdups (map snd pairs))
      in \<lparr>c_index = idx,
          c_cols = map (\<lambda>t. (t, map (\<lambda>c. count_list pairs (c, t)) idx)) labels\<rparr>)"

text \<open>\<^verbatim>\<open>DataFrame.get(key, default)\<close> gives the column, or the default when no column
  has the label; \<^verbatim>\<open>+\<close> adds two columns row by row and adds a number to every row.\<close>

datatype operand = Scalar nat | Column "nat list"

definition get :: "counts \<Rightarrow> string \<Rightarrow> nat \<Rightarrow> operand" where
  "get df key dflt = (case map_of (c_cols df) key of None \<Rightarrow> Scalar dflt | Some c \<Rightarrow> Column c)"

fun plus_operand :: "operand \<Rightarrow> operand \<Rightarrow> operand" where
  "plus_operand (Scalar a) (Scalar b) = Scalar (a + b)"
| "plus_operand (Scalar a) (Column d) = Column (map (\<lambda>y. a + y) d)"
| "plus_operand (Column c) (Scalar b) = Column (map (\<lambda>x. x + b) c)"
| "plus_operand (Column c) (Column d) = Column (map (\<lambda>(x, y). x + y) (zip c d))"

definition set_column :: "counts \<Rightarrow> string \<Rightarrow> operand \<Rightarrow> counts" where
  "set_column df key v =
     (let c = (case v of Scalar a \<Rightarrow> replicate (length (c_index df)) a | Column c \<Rightarrow> c)
      in df\<lparr>c_cols :=
              (if key \<in> set (map fst (c_cols df))
               then map (\<lambda>(l, old). if l = key then (l, c) else (l, old)) (c_cols df)
               else c_cols df @ [(key, c)])\<rparr>)"

text \<open>Lines 94 to 98.\<close>

definition post_type_counts :: "raw_post list \<Rightarrow> counts" where
  "post_type_counts df_ranking =
     (let ptc = value_counts_unstack df_ranking;
          ptc = set_column ptc ''Consulates''
                  (plus_operand (get ptc ''Consulate'' 0) (get ptc ''Consulate General'' 0));
          ptc = set_column ptc ''Embassies''
                  (plus_operand (get ptc ''Embassy'' 0) (get ptc ''High Commission'' 0))
      in ptc)"

text \<open>\<^verbatim>\<open>post_type_counts[['Embassies', 'Consulates']]\<close>, as rows: country, embassies,
  consulates.\<close>

definition embassies_consulates :: "counts \<Rightarrow> error + (string \<times> nat \<times> nat) list" where
  "embassies_consulates ptc =
     (case map_of (c_cols ptc) ''Embassies'' of
        None \<Rightarrow> Inl (KeyError ''Embassies'')
      | Some e \<Rightarrow>
         (case map_of (c_cols ptc) ''Consulates'' of
            None \<Rightarrow> Inl (KeyError ''Consulates'')
          | Some c \<Rightarrow> Inr (zip (c_index ptc) (zip e c))))"

text \<open>\<^verbatim>\<open>drop_duplicates(subset=[key])\<close>: of the rows with the same key the first stays.\<close>

fun drop_duplicates :: "('a \<Rightarrow> 'k) \<Rightarrow> 'k list \<Rightarrow> 'a list \<Rightarrow> 'a list" where
  "drop_duplicates key seen [] = []"
| "drop_duplicates key seen (x # xs) =
     (if key x \<in> set seen then drop_duplicates key seen xs
      else x # drop_duplicates key (key x # seen) xs)"

text \<open>A row of the table that is shown: \<^verbatim>\<open>Rank\<close> (the index), \<^verbatim>\<open>Country\<close>,
  \<^verbatim>\<open>POPULATION (M)\<close>, \<^verbatim>\<open>GDP (B, USD)\<close>, \<^verbatim>\<open>TOTAL POSTS\<close>, \<^verbatim>\<open>Embassies\<close>,
  \<^verbatim>\<open>Consulates\<close>. The last two come from a left join, which leaves them missing in a
  row that finds no partner.\<close>

record summary_row =
  Rank :: int
  Country :: string
  Population :: real
  Gdp :: real
  TOTAL_POSTS :: nat
  Embassies :: "nat option"
  Consulates :: "nat option"

text \<open>Line 104, the inner join of the metadata with the totals, and line 106, the left
  join with the two counts; both keep the order of the left rows. A row of the metadata
  with a blank country has no partner among the totals. A joined row is the row of the
  metadata, the country and its total.\<close>

definition merge_inner ::
  "raw_post list \<Rightarrow> (string \<times> nat) list \<Rightarrow> (raw_post \<times> string \<times> nat) list" where
  "merge_inner df_meta df_total_posts =
     concat (map (\<lambda>m. map (\<lambda>(c, p). (m, c, p))
                         (filter (\<lambda>(c, p). COUNTRY m = Some c) df_total_posts)) df_meta)"

definition merge_left ::
  "(raw_post \<times> string \<times> nat) list \<Rightarrow> (string \<times> nat \<times> nat) list \<Rightarrow> summary_row list" where
  "merge_left df_merged right =
     concat (map (\<lambda>(m, country, p).
        (case filter (\<lambda>(c, e, k). c = country) right of
           [] \<Rightarrow> [\<lparr>Rank = OVERALL_RANK m, Country = country, Population = POPULATION_M m,
                   Gdp = GDP_B_USD m, TOTAL_POSTS = p, Embassies = None, Consulates = None\<rparr>]
         | found \<Rightarrow>
             map (\<lambda>(c, e, k).
                    \<lparr>Rank = OVERALL_RANK m, Country = country, Population = POPULATION_M m,
                     Gdp = GDP_B_USD m, TOTAL_POSTS = p, Embassies = Some e, Consulates = Some k\<rparr>)
               found)) df_merged)"

text \<open>Lines 86 to 114: \<^verbatim>\<open>df_final_display\<close> with the columns that are shown. All of
  \<^verbatim>\<open>columns_to_show\<close> exist at line 113, so the selection keeps them all.\<close>

definition final_display :: "sheet \<Rightarrow> long_row list \<Rightarrow> int \<Rightarrow> error + summary_row list" where
  "final_display df_detail df_long year_to_display =
     (case missing_label (columns df_detail)
             [''Year'', ''COUNTRY'', ''POST TYPE TITLE'', ''OVERALL RANK'', ''POPULATION (M)'', ''GDP (B, USD)''] of
        Some e \<Rightarrow> Inl e
      | None \<Rightarrow>
         (let df_ranking = filter (\<lambda>r. Year r = Some year_to_display) (rows df_detail);
              df_total_posts =
                map (\<lambda>r. (Name r, Posts r)) (filter (\<lambda>r. Year r = year_to_display) df_long);
              ptc = post_type_counts df_ranking;
              df_meta = drop_duplicates COUNTRY [] df_ranking;
              df_merged = merge_inner df_meta df_total_posts
          in case embassies_consulates ptc of
               Inl e \<Rightarrow> Inl e
             | Inr right \<Rightarrow> Inr (merge_left df_merged right)))"

text \<open>Line 115: \<^verbatim>\<open>sort_values(by='Rank').set_index('Rank')\<close>. The index is not checked
  for duplicates (\<^verbatim>\<open>verify_integrity\<close> is off). The sort is modelled as a stable
  one, as above.\<close>

definition display :: "sheet \<Rightarrow> long_row list \<Rightarrow> int \<Rightarrow> error + summary_row list" where
  "display df_detail df_long year_to_display =
     (case final_display df_detail df_long year_to_display of
        Inl e \<Rightarrow> Inl e
      | Inr df_final_display \<Rightarrow> Inr (sort_key Rank df_final_display))"

subsection \<open>The footprint of a country (tab 3)\<close>

text \<open>\<^verbatim>\<open>Series.value_counts()\<close>: the blank cells are left out (\<^verbatim>\<open>dropna=True\<close>); the
  distinct values, in the order in which they first occur, each with the number of its
  occurrences, then sorted by that number, descending.\<close>

definition value_counts :: "'a option list \<Rightarrow> ('a \<times> nat) list" where
  "value_counts cells =
     (let xs = dropna cells
      in sort_key (\<lambda>(v, n). - int n) (map (\<lambda>v. (v, count_list xs v)) (rev (remdups (rev xs)))))"

text \<open>Lines 124 to 129, for the values of \<^verbatim>\<open>map_year\<close> and
  \<^verbatim>\<open>selected_country_map\<close>.\<close>

definition footprint :: "sheet \<Rightarrow> int \<Rightarrow> string \<Rightarrow> error + (string \<times> nat) list" where
  "footprint df_detail map_year selected_country_map =
     (case missing_label (columns df_detail) [''Year'', ''COUNTRY'', ''POST COUNTRY''] of
        Some e \<Rightarrow> Inl e
      | None \<Rightarrow>
         (let df_map_data = filter (\<lambda>r. Year r = Some map_year) (rows df_detail);
              country_posts = filter (\<lambda>r. COUNTRY r = Some selected_country_map) df_map_data
          in Inr (value_counts (map POST_COUNTRY country_posts))))"

subsection \<open>The trend of a selection of countries (tab 4)\<close>

text \<open>Lines 140 to 143. With nothing selected there is no pivot.\<close>

definition trend :: "long_row list \<Rightarrow> string list \<Rightarrow> (int, string) pivot option" where
  "trend df_long selected_countries_comp =
     (if selected_countries_comp = [] then None
      else
        let trend_df = filter (\<lambda>r. Name r \<in> set selected_countries_comp) df_long;
            trend_df = filter (\<lambda>r. Year r \<noteq> 2019) trend_df
        in Some (pivot_table Year Name Posts trend_df))"

subsection \<open>Reading a cell\<close>

fun position :: "'a \<Rightarrow> 'a list \<Rightarrow> nat option" where
  "position x [] = None"
| "position x (y # ys) = (if x = y then Some 0 else map_option Suc (position x ys))"

text \<open>The cell of a pivot at a row label and a column label: \<open>None\<close> when the pivot has
  no such row or no such column, \<open>Some None\<close> when the cell is there and missing.\<close>

definition cell :: "('i, 'c) pivot \<Rightarrow> 'i \<Rightarrow> 'c \<Rightarrow> real option option" where
  "cell pv i c =
     (case position i (p_index pv) of
        None \<Rightarrow> None
      | Some a \<Rightarrow>
         (case position c (p_columns pv) of
            None \<Rightarrow> None
          | Some b \<Rightarrow> Some (p_values pv ! a ! b)))"

text \<open>The cell of \<^verbatim>\<open>df_wide\<close> in the row of a country and the column with a label,
  among the columns after \<^verbatim>\<open>Name\<close>.\<close>

definition wide_cell :: "wide \<Rightarrow> string \<Rightarrow> string \<Rightarrow> real option option" where
  "wide_cell w country label =
     (case map_of (w_rows w) country of
        None \<Rightarrow> None
      | Some cells \<Rightarrow>
         (case position label (tl (w_columns w)) of
            None \<Rightarrow> None
          | Some b \<Rightarrow> Some (cells ! b)))"

text \<open>The number of posts of a country in a year that carry a given post type.\<close>

definition posts_of_type :: "sheet \<Rightarrow> int \<Rightarrow> string \<Rightarrow> string \<Rightarrow> nat" where
  "posts_of_type df_detail year country title =
     length (filter (\<lambda>r. Year r = Some year \<and> COUNTRY r = Some country
                           \<and> POST_TYPE_TITLE r = Some title)
               (rows df_detail))"

subsection \<open>A small sheet\<close>

text \<open>Eight posts of three countries over four years, used to run the definitions. In
  2020 the countries \<open>B\<close> and \<open>C\<close> share the overall rank 2.\<close>

definition post :: "int \<Rightarrow> string \<Rightarrow> int \<Rightarrow> string \<Rightarrow> string \<Rightarrow> raw_post" where
  "post y c k t h =
     \<lparr>Year = Some y, COUNTRY = Some c, OVERALL_RANK = k, POPULATION_M = 1, GDP_B_USD = 1,
      POST_TYPE_TITLE = Some t, POST_COUNTRY = Some h\<rparr>"

definition example_sheet :: sheet where
  "example_sheet =
     \<lparr>columns = [''COUNTRY'', ''Year'', ''OVERALL RANK'', ''POPULATION (M)'', ''GDP (B, USD)'',
                 ''POST TYPE TITLE'', ''POST COUNTRY''],
      rows = [post 2020 ''C'' 2 ''Embassy'' ''X'',
              post 2020 ''C'' 2 ''Consulate General'' ''Y'',
              post 2020 ''C'' 2 ''Trade Office'' ''X'',
              post 2020 ''B'' 2 ''Trade Office'' ''X'',
              post 2020 ''A'' 1 ''High Commission'' ''Z'',
              post 2021 ''A'' 1 ''High Commission'' ''Z'',
              post 2019 ''A'' 1 ''Embassy'' ''Z'',
              post 2018 ''A'' 1 ''Embassy'' ''Z'']\<rparr>"

definition example_long :: "long_row list" where
  "example_long =
     [\<lparr>Year = 2018, Name = ''A'', Posts = 1\<rparr>, \<lparr>Year = 2019, Name = ''A'', Posts = 1\<rparr>,
      \<lparr>Year = 2020, Name = ''A'', Posts = 1\<rparr>, \<lparr>Year = 2021, Name = ''A'', Posts = 1\<rparr>,
      \<lparr>Year = 2020, Name = ''B'', Posts = 1\<rparr>, \<lparr>Year = 2020, Name = ''C'', Posts = 3\<rparr>]"

text \<open>
  A sheet with blank cells: in 2020 two posts of \<open>A\<close>, one of them with a blank host
  country, and one post of \<open>B\<close> with a blank title; in 2019 one post with a blank country.
\<close>

definition blank_sheet :: sheet where
  "blank_sheet =
     \<lparr>columns = [''COUNTRY'', ''Year'', ''OVERALL RANK'', ''POPULATION (M)'', ''GDP (B, USD)'',
                 ''POST TYPE TITLE'', ''POST COUNTRY''],
      rows = [post 2020 ''A'' 1 ''Embassy'' ''X'',
              (post 2020 ''A'' 1 ''Embassy'' ''Y'')\<lparr>POST_COUNTRY := None\<rparr>,
              (post 2020 ''B'' 2 ''Consulate'' ''Y'')\<lparr>POST_TYPE_TITLE := None\<rparr>,
              (post 2019 ''C'' 3 ''Embassy'' ''Z'')\<lparr>COUNTRY := None\<rparr>]\<rparr>"

definition blank_long :: "long_row list" where
  "blank_long =
     [\<lparr>Year = 2020, Name = ''A'', Posts = 2\<rparr>, \<lparr>Year = 2020, Name = ''B'', Posts = 1\<rparr>]"

text \<open>Two countries in two years: \<open>A\<close> has 5 posts in 2020 and 3 in 2021, \<open>B\<close> has 2
  and 6.\<close>

definition scenario_long :: "long_row list" where
  "scenario_long =
     [\<lparr>Year = 2020, Name = ''A'', Posts = 5\<rparr>, \<lparr>Year = 2021, Name = ''A'', Posts = 3\<rparr>,
      \<lparr>Year = 2020, Name = ''B'', Posts = 2\<rparr>, \<lparr>Year = 2021, Name = ''B'', Posts = 6\<rparr>]"

section \<open>Loading and the required columns\<close>

text \<open>
  Claim C8. Loading stops with the schema error exactly when the sheet was read and one
  of the columns \<^verbatim>\<open>COUNTRY\<close>, \<^verbatim>\<open>Year\<close>, \<^verbatim>\<open>OVERALL RANK\<close> is not among its
  labels. The check is made in \<^const>\<open>load_and_prepare_data\<close>, before the long form is
  built, and with the three columns present loading returns the wide pivot, the long form
  and the sheet.
\<close>

theorem schema_error_iff_required_column_missing:
  "(load_and_prepare_data r = Inl Stop_schema \<longleftrightarrow>
      (\<exists>df. r = Read_ok df \<and>
         (''COUNTRY'' \<notin> set (columns df) \<or> ''Year'' \<notin> set (columns df)
          \<or> ''OVERALL RANK'' \<notin> set (columns df))))
   \<and> (\<forall>df. ''COUNTRY'' \<in> set (columns df) \<and> ''Year'' \<in> set (columns df)
             \<and> ''OVERALL RANK'' \<in> set (columns df) \<longrightarrow>
          load_and_prepare_data (Read_ok df) =
            Inr (to_wide (year_is_float (rows df)) (to_long_form (rows df)), to_long_form (rows df), df))"
  by (cases r) (auto simp: load_and_prepare_data_def required_cols_def Let_def)

theorem schema_error_iff_required_column_missing_witness:
  "load_and_prepare_data
     (Read_ok \<lparr>columns = [''COUNTRY'', ''Year'', ''POST TYPE TITLE''],
               rows = [post 2020 ''A'' 1 ''Embassy'' ''X'']\<rparr>) = Inl Stop_schema
   \<and> load_and_prepare_data
        (Read_ok \<lparr>columns = [''COUNTRY'', ''Year'', ''OVERALL RANK''],
                  rows = [post 2020 ''A'' 1 ''Embassy'' ''X'']\<rparr>)
      = Inr (to_wide (year_is_float [post 2020 ''A'' 1 ''Embassy'' ''X''])
               (to_long_form [post 2020 ''A'' 1 ''Embassy'' ''X'']),
             to_long_form [post 2020 ''A'' 1 ''Embassy'' ''X''],
             \<lparr>columns = [''COUNTRY'', ''Year'', ''OVERALL RANK''],
              rows = [post 2020 ''A'' 1 ''Embassy'' ''X'']\<rparr>)"
  using schema_error_iff_required_column_missing
          [of "Read_ok \<lparr>columns = [''COUNTRY'', ''Year'', ''POST TYPE TITLE''],
                        rows = [post 2020 ''A'' 1 ''Embassy'' ''X'']\<rparr>"]
        schema_error_iff_required_column_missing
          [of "Read_ok \<lparr>columns = [''COUNTRY'', ''Year'', ''OVERALL RANK''],
                        rows = [post 2020 ''A'' 1 ''Embassy'' ''X'']\<rparr>"]
  by simp

section \<open>Rank analysis with one year given twice\<close>

lemma rank_change_same_year:
  "rank_change df y y =
     Inl (ValueError ''Cannot set a DataFrame with multiple columns to the single column'')"
  by (simp add: rank_change_def merge_on_Name_def getitem_def minus_cols_def setitem_def Let_def)

text \<open>
  Claim C4 says that the rank analysis of a year against itself returns ten rows of
  change 0. In the program both suffixes of the merge are then the same, the merged frame
  has two columns with the one label, each selection by that label is a frame of two
  columns, and the assignment of their difference to \<^verbatim>\<open>Rank_Change\<close> raises a
  \<^verbatim>\<open>ValueError\<close>: for every long form and every year the call fails.
\<close>

theorem calculate_rank_analysis_same_year_raises:
  "calculate_rank_analysis df y y =
     Inl (ValueError ''Cannot set a DataFrame with multiple columns to the single column'')"
  by (simp add: calculate_rank_analysis_def rank_change_same_year)

section \<open>The long form\<close>

lemma map_fst_groupby_size: "map fst (groupby_size ks) = sort (remdups ks)"
  by (simp add: groupby_size_def comp_def)

lemma sum_groupby_size: "sum_list (map snd (groupby_size ks)) = length ks"
proof -
  have "sum_list (map snd (groupby_size ks)) = sum_list (map (count_list ks) (sort (remdups ks)))"
    by (simp add: groupby_size_def comp_def)
  also have "\<dots> = sum (count_list ks) (set (sort (remdups ks)))"
    by (rule sum_list_distinct_conv_sum_set) simp
  also have "\<dots> = length ks"
    by (simp add: sum_count_set)
  finally show ?thesis .
qed

lemma groupby_size_member: "(k, n) \<in> set (groupby_size ks) \<longleftrightarrow> k \<in> set ks \<and> n = count_list ks k"
  by (auto simp: groupby_size_def)

lemma set_dropna: "set (dropna cells) = {x. Some x \<in> set cells}"
  by (induction cells rule: dropna.induct) auto

lemma length_dropna: "length (dropna cells) = length (filter (\<lambda>v. v \<noteq> None) cells)"
  by (induction cells rule: dropna.induct) auto

lemma count_list_dropna: "count_list (dropna cells) x = length (filter (\<lambda>v. v = Some x) cells)"
  by (induction cells rule: dropna.induct) auto

lemma group_key_Some: "group_key r = Some (c, y) \<longleftrightarrow> COUNTRY r = Some c \<and> Year r = Some y"
  by (auto simp: group_key_def split: option.splits)

lemma group_key_None: "group_key r \<noteq> None \<longleftrightarrow> COUNTRY r \<noteq> None \<and> Year r \<noteq> None"
  by (auto simp: group_key_def split: option.splits)

lemma dropna_group_key_Cons:
  "dropna (map group_key (x # df)) =
     (case COUNTRY x of
        None \<Rightarrow> dropna (map group_key df)
      | Some c \<Rightarrow>
         (case Year x of
            None \<Rightarrow> dropna (map group_key df)
          | Some y \<Rightarrow> (c, y) # dropna (map group_key df)))"
  by (simp add: group_key_def split: option.splits)

lemma set_group_keys:
  "set (dropna (map group_key df)) = {(c, y). \<exists>x \<in> set df. COUNTRY x = Some c \<and> Year x = Some y}"
proof (induction df)
  case Nil
  then show ?case by simp
next
  case (Cons x df)
  show ?case
    unfolding dropna_group_key_Cons using Cons by (auto split: option.splits)
qed

lemma count_group_key:
  "count_list (dropna (map group_key df)) (c, y)
     = length (filter (\<lambda>x. COUNTRY x = Some c \<and> Year x = Some y) df)"
proof (induction df)
  case Nil
  then show ?case by simp
next
  case (Cons x df)
  show ?case
    unfolding dropna_group_key_Cons using Cons by (auto split: option.splits)
qed

lemma length_group_keys:
  "length (dropna (map group_key df)) = length (filter (\<lambda>x. COUNTRY x \<noteq> None \<and> Year x \<noteq> None) df)"
proof (induction df)
  case Nil
  then show ?case by simp
next
  case (Cons x df)
  show ?case
    unfolding dropna_group_key_Cons using Cons by (auto split: option.splits)
qed

lemma long_keys:
  "map (\<lambda>r. (Name r, Year r)) (to_long_form df) = sort (remdups (dropna (map group_key df)))"
  by (simp add: to_long_form_def groupby_size_def comp_def case_prod_unfold)

lemma long_posts: "map Posts (to_long_form df) = map snd (groupby_size (dropna (map group_key df)))"
  by (simp add: to_long_form_def comp_def case_prod_unfold)

lemma long_member:
  "r \<in> set (to_long_form df) \<longleftrightarrow>
     (\<exists>x \<in> set df. COUNTRY x = Some (Name r) \<and> Year x = Some (Year r)) \<and>
     Posts r = length (filter (\<lambda>x. COUNTRY x = Some (Name r) \<and> Year x = Some (Year r)) df)"
proof -
  have "r \<in> set (to_long_form df) \<longleftrightarrow>
      ((Name r, Year r), Posts r) \<in> set (groupby_size (dropna (map group_key df)))"
    by (cases r) (force simp: to_long_form_def image_iff)
  also have "\<dots> \<longleftrightarrow> (Name r, Year r) \<in> set (dropna (map group_key df))
      \<and> Posts r = count_list (dropna (map group_key df)) (Name r, Year r)"
    by (rule groupby_size_member)
  also have "\<dots> \<longleftrightarrow> (\<exists>x \<in> set df. COUNTRY x = Some (Name r) \<and> Year x = Some (Year r)) \<and>
     Posts r = length (filter (\<lambda>x. COUNTRY x = Some (Name r) \<and> Year x = Some (Year r)) df)"
    by (simp add: set_group_keys count_group_key)
  finally show ?thesis .
qed

lemma distinct_long_keys: "distinct (map (\<lambda>r. (Name r, Year r)) (to_long_form df))"
  by (simp add: long_keys)

lemma example_long_form: "to_long_form (rows example_sheet) = example_long"
  by code_simp

lemma blank_long_form: "to_long_form (rows blank_sheet) = blank_long"
  by code_simp

text \<open>
  Claim C1, as the program has it. The posts of the long form add up to the number of rows
  of the sheet in which neither \<^verbatim>\<open>COUNTRY\<close> nor \<^verbatim>\<open>Year\<close> is blank; a row with a
  blank key is in no group. Every size is a number, so no row is lost to the coercion of
  line 30, and for a sheet without blank keys the posts add up to the number of its rows.
  Each row of the long form counts the rows of the sheet with exactly its country and its
  year, and the long form has one row for each pair of country and year of the sheet.
\<close>

theorem long_form_counts_rows_with_keys:
  "sum_list (map Posts (to_long_form df))
     = length (filter (\<lambda>x. COUNTRY x \<noteq> None \<and> Year x \<noteq> None) df)
   \<and> ((\<forall>x \<in> set df. COUNTRY x \<noteq> None \<and> Year x \<noteq> None)
        \<longrightarrow> sum_list (map Posts (to_long_form df)) = length df)
   \<and> (\<forall>r \<in> set (to_long_form df).
         Posts r = length (filter (\<lambda>x. COUNTRY x = Some (Name r) \<and> Year x = Some (Year r)) df))
   \<and> distinct (map (\<lambda>r. (Name r, Year r)) (to_long_form df))
   \<and> set (map (\<lambda>r. (Name r, Year r)) (to_long_form df))
       = {(c, y). \<exists>x \<in> set df. COUNTRY x = Some c \<and> Year x = Some y}"
proof -
  have total: "sum_list (map Posts (to_long_form df))
     = length (filter (\<lambda>x. COUNTRY x \<noteq> None \<and> Year x \<noteq> None) df)"
    by (simp only: long_posts sum_groupby_size length_group_keys)
  have full: "sum_list (map Posts (to_long_form df)) = length df"
    if "\<forall>x \<in> set df. COUNTRY x \<noteq> None \<and> Year x \<noteq> None"
  proof -
    from that have "filter (\<lambda>x. COUNTRY x \<noteq> None \<and> Year x \<noteq> None) df = df"
      by (simp add: filter_id_conv)
    with total show ?thesis by simp
  qed
  have keys: "set (map (\<lambda>r. (Name r, Year r)) (to_long_form df))
       = {(c, y). \<exists>x \<in> set df. COUNTRY x = Some c \<and> Year x = Some y}"
    by (simp only: long_keys set_sort set_remdups set_group_keys)
  show ?thesis
    using total full keys distinct_long_keys[of df] long_member[of _ df] by blast
qed

theorem long_form_counts_rows_with_keys_witness:
  "sum_list (map Posts (to_long_form (rows example_sheet))) = 8
   \<and> length (rows example_sheet) = 8
   \<and> map Posts (to_long_form (rows example_sheet)) = [1, 1, 1, 1, 1, 3]
   \<and> length (filter (\<lambda>x. COUNTRY x \<noteq> None \<and> Year x \<noteq> None) (rows blank_sheet)) = 3
   \<and> sum_list (map Posts (to_long_form (rows blank_sheet))) = 3"
proof -
  have n: "length (rows example_sheet) = 8" by (simp add: example_sheet_def)
  have p: "map Posts (to_long_form (rows example_sheet)) = [1, 1, 1, 1, 1, 3]"
    by (simp add: example_long_form example_long_def)
  have a: "\<forall>x \<in> set (rows example_sheet). COUNTRY x \<noteq> None \<and> Year x \<noteq> None"
    by (simp add: example_sheet_def post_def)
  have b: "length (filter (\<lambda>x. COUNTRY x \<noteq> None \<and> Year x \<noteq> None) (rows blank_sheet)) = 3"
    by (simp add: blank_sheet_def post_def)
  show ?thesis
    using long_form_counts_rows_with_keys [of "rows example_sheet"]
      long_form_counts_rows_with_keys [of "rows blank_sheet"] n p a b
    by simp
qed

text \<open>
  Claim C1, as it is stated, counts every row of the sheet. The sheet with blank cells has
  four rows, one of them with a blank \<^verbatim>\<open>COUNTRY\<close>; the posts of its long form add up
  to three.
\<close>

theorem long_form_leaves_out_blank_country:
  "length (rows blank_sheet) = 4
   \<and> to_long_form (rows blank_sheet)
       = [\<lparr>Year = 2020, Name = ''A'', Posts = 2\<rparr>, \<lparr>Year = 2020, Name = ''B'', Posts = 1\<rparr>]
   \<and> sum_list (map Posts (to_long_form (rows blank_sheet))) = 3"
  by (simp add: blank_long_form blank_long_def) (simp add: blank_sheet_def)

section \<open>Ranks within a year\<close>

lemma takeWhile_descending:
  "sorted (rev xs) \<Longrightarrow> p \<in> set xs \<Longrightarrow> takeWhile (\<lambda>q. q \<noteq> p) xs = filter (\<lambda>q. p < q) (xs::nat list)"
proof (induction xs)
  case Nil
  then show ?case by simp
next
  case (Cons x xs)
  have below: "\<forall>q \<in> set xs. q \<le> x" using Cons.prems(1) by (auto simp: sorted_append)
  have srt: "sorted (rev xs)" using Cons.prems(1) by (auto simp: sorted_append)
  show ?case
  proof (cases "x = p")
    case True
    then have "filter (\<lambda>q. p < q) xs = []" using below by (auto simp: filter_empty_conv)
    with True show ?thesis by simp
  next
    case False
    then have "p \<in> set xs" using Cons.prems(2) by simp
    then have "p \<le> x" using below by blast
    with False have "p < x" by simp
    with False Cons.IH[OF srt \<open>p \<in> set xs\<close>] show ?thesis by simp
  qed
qed

lemma length_filter_rev_sort:
  "length (filter P (rev (sort xs))) = length (filter P (xs::nat list))"
proof -
  have "mset (filter P (rev (sort xs))) = mset (filter P xs)" by simp
  then show ?thesis by (metis size_mset)
qed

lemma rank_min_desc_count:
  "rank_min_desc ps = map (\<lambda>p. int (Suc (length (filter (\<lambda>q. p < q) ps)))) ps"
proof -
  have "length (takeWhile (\<lambda>q. q \<noteq> p) (rev (sort ps))) = length (filter (\<lambda>q. p < q) ps)"
    if "p \<in> set ps" for p
  proof -
    have "takeWhile (\<lambda>q. q \<noteq> p) (rev (sort ps)) = filter (\<lambda>q. p < q) (rev (sort ps))"
      using that by (intro takeWhile_descending) simp_all
    then show ?thesis by (simp add: length_filter_rev_sort)
  qed
  then show ?thesis by (simp add: rank_min_desc_def)
qed

lemma first_position:
  assumes "p \<in> set xs"
  shows "length (takeWhile (\<lambda>q. q \<noteq> p) xs) < length xs
         \<and> xs ! length (takeWhile (\<lambda>q. q \<noteq> p) xs) = p
         \<and> (\<forall>k < length (takeWhile (\<lambda>q. q \<noteq> p) xs). xs ! k \<noteq> p)"
proof -
  let ?n = "length (takeWhile (\<lambda>q. q \<noteq> p) xs)"
  have "takeWhile (\<lambda>q. q \<noteq> p) xs \<noteq> xs" using assms by auto
  then have lt: "?n < length xs"
    using length_takeWhile_le[of "\<lambda>q. q \<noteq> p" xs] takeWhile_eq_take[of "\<lambda>q. q \<noteq> p" xs]
    by (cases "?n = length xs") auto
  have at: "xs ! ?n = p" using nth_length_takeWhile[OF lt] by simp
  have "xs ! k \<noteq> p" if "k < ?n" for k
  proof -
    have "takeWhile (\<lambda>q. q \<noteq> p) xs ! k \<in> set (takeWhile (\<lambda>q. q \<noteq> p) xs)" using that by simp
    then have "takeWhile (\<lambda>q. q \<noteq> p) xs ! k \<noteq> p" by (auto dest: set_takeWhileD)
    then show ?thesis using that by (simp add: takeWhile_nth)
  qed
  with lt at show ?thesis by blast
qed

lemma rank_year_member:
  "(a, ra) \<in> set (rank_year df y) \<longleftrightarrow>
     a \<in> set df \<and> Year a = y \<and>
     ra = int (Suc (length (takeWhile (\<lambda>q. q \<noteq> Posts a) (rev (sort (map Posts (filter (\<lambda>r. Year r = y) df)))))))"
proof -
  have z: "zip xs (map h xs) = map (\<lambda>x. (x, h x)) xs" for xs :: "long_row list" and h :: "long_row \<Rightarrow> int"
    by (induction xs) auto
  show ?thesis
    by (auto simp: rank_year_def rank_min_desc_def Let_def z)
qed

lemma rank_year_member_count:
  "(a, ra) \<in> set (rank_year df y) \<longleftrightarrow>
     a \<in> set df \<and> Year a = y \<and>
     ra = int (Suc (length (filter (\<lambda>q. Posts a < q) (map Posts (filter (\<lambda>r. Year r = y) df)))))"
proof -
  have z: "zip xs (map h xs) = map (\<lambda>x. (x, h x)) xs" for xs :: "long_row list" and h :: "long_row \<Rightarrow> int"
    by (induction xs) auto
  show ?thesis
    by (auto simp: rank_year_def rank_min_desc_count Let_def z)
qed

text \<open>
  Claim C2. Within a year, a country with more posts than another has the smaller rank,
  countries with equally many posts have the same rank, and the rank of a country is the
  smallest position, counted from 1, that its number of posts has in the descending order
  of the year's numbers of posts.
\<close>

theorem rank_year_is_competition_ranking:
  assumes "(a, ra) \<in> set (rank_year df y)" and "(b, rb) \<in> set (rank_year df y)"
  shows "(Posts b < Posts a \<longrightarrow> ra < rb)
         \<and> (Posts a = Posts b \<longrightarrow> ra = rb)
         \<and> (let descending = rev (sort (map Posts (filter (\<lambda>r. Year r = y) df)));
                 k = nat ra - 1
             in 1 \<le> ra \<and> k < length descending \<and> descending ! k = Posts a
                \<and> (\<forall>j < k. descending ! j \<noteq> Posts a))"
proof -
  let ?ps = "map Posts (filter (\<lambda>r. Year r = y) df)"
  have ra: "ra = int (Suc (length (filter (\<lambda>q. Posts a < q) ?ps)))"
    and rb: "rb = int (Suc (length (filter (\<lambda>q. Posts b < q) ?ps)))"
    and a: "a \<in> set df" "Year a = y" and b: "b \<in> set df" "Year b = y"
    using assms by (simp_all add: rank_year_member_count)
  have strict: "ra < rb" if "Posts b < Posts a"
  proof -
    have "filter (\<lambda>q. Posts a < q) (filter (\<lambda>q. Posts b < q) ?ps) = filter (\<lambda>q. Posts a < q) ?ps"
      using that by (auto intro!: filter_cong)
    then have sub: "length (filter (\<lambda>q. Posts a < q) ?ps) \<le> length (filter (\<lambda>q. Posts a < q) (filter (\<lambda>q. Posts b < q) ?ps))"
      by simp
    have "Posts a \<in> set (filter (\<lambda>q. Posts b < q) ?ps)" using a that by auto
    then have "length (filter (\<lambda>q. Posts a < q) (filter (\<lambda>q. Posts b < q) ?ps)) < length (filter (\<lambda>q. Posts b < q) ?ps)"
      by (intro length_filter_less[where x = "Posts a"]) simp_all
    with sub show ?thesis by (simp add: ra rb)
  qed
  have tie: "ra = rb" if "Posts a = Posts b" using that by (simp add: ra rb)
  have pa: "Posts a \<in> set (rev (sort ?ps))" using a by auto
  have ra': "ra = int (Suc (length (takeWhile (\<lambda>q. q \<noteq> Posts a) (rev (sort ?ps)))))"
    using assms(1) by (simp add: rank_year_member)
  have pos: "1 \<le> ra" by (simp add: ra)
  have k: "nat ra - 1 = length (takeWhile (\<lambda>q. q \<noteq> Posts a) (rev (sort ?ps)))"
    by (simp add: ra')
  have min_pos: "nat ra - 1 < length (rev (sort ?ps)) \<and> rev (sort ?ps) ! (nat ra - 1) = Posts a
      \<and> (\<forall>j < nat ra - 1. rev (sort ?ps) ! j \<noteq> Posts a)"
    unfolding k by (rule first_position[OF pa])
  show ?thesis
    unfolding Let_def using strict tie pos min_pos by blast
qed

lemma example_rank_year_2020:
  "rank_year example_long 2020 =
     [(\<lparr>Year = 2020, Name = ''A'', Posts = 1\<rparr>, 2), (\<lparr>Year = 2020, Name = ''B'', Posts = 1\<rparr>, 2),
      (\<lparr>Year = 2020, Name = ''C'', Posts = 3\<rparr>, 1)]"
  by code_simp

theorem rank_year_is_competition_ranking_witness:
  "(\<lparr>Year = 2020, Name = ''C'', Posts = 3\<rparr>, 1) \<in> set (rank_year example_long 2020)
   \<and> (\<lparr>Year = 2020, Name = ''B'', Posts = 1\<rparr>, 2) \<in> set (rank_year example_long 2020)
   \<and> Posts \<lparr>Year = 2020, Name = ''B'', Posts = 1\<rparr> < Posts \<lparr>Year = 2020, Name = ''C'', Posts = 3\<rparr>
   \<and> rev (sort (map Posts (filter (\<lambda>r. Year r = 2020) example_long))) ! 0 = 3"
proof -
  have c: "(\<lparr>Year = 2020, Name = ''C'', Posts = 3\<rparr>, 1) \<in> set (rank_year example_long 2020)"
    and b: "(\<lparr>Year = 2020, Name = ''B'', Posts = 1\<rparr>, 2) \<in> set (rank_year example_long 2020)"
    by (simp_all add: example_rank_year_2020)
  show ?thesis
    using rank_year_is_competition_ranking [OF c b] c b by (simp add: Let_def)
qed

section \<open>Python's str on integers is injective\<close>

lemma digit_inj: "a < 10 \<Longrightarrow> b < 10 \<Longrightarrow> (char_of (48 + a) :: char) = char_of (48 + b) \<Longrightarrow> a = (b::nat)"
proof -
  assume a: "a < 10" and b: "b < 10" and e: "(char_of (48 + a) :: char) = char_of (48 + b)"
  from e have "(of_char (char_of (48 + a) :: char) :: nat) = of_char (char_of (48 + b) :: char)" by simp
  then have "(48 + a) mod 256 = (48 + b) mod 256" by (simp only: of_char_of)
  with a b show ?thesis by simp
qed

lemma str_nat_small: "n < 10 \<Longrightarrow> str_nat n = [char_of (48 + n)]"
  by (simp add: str_nat.simps)

lemma str_nat_big: "\<not> n < 10 \<Longrightarrow> str_nat n = str_nat (n div 10) @ [char_of (48 + n mod 10)]"
  by (subst str_nat.simps) simp

lemma str_nat_not_Nil: "str_nat n \<noteq> []"
  by (cases "n < 10") (simp_all add: str_nat_small str_nat_big)

lemma str_nat_inj: "str_nat n = str_nat m \<Longrightarrow> n = m"
proof (induction n arbitrary: m rule: str_nat.induct)
  case (1 n)
  show ?case
  proof (cases "n < 10")
    case n: True
    show ?thesis
    proof (cases "m < 10")
      case True
      with n "1.prems" show ?thesis by (auto simp: str_nat_small dest: digit_inj)
    next
      case False
      with n "1.prems" str_nat_not_Nil[of "m div 10"] show ?thesis
        by (simp add: str_nat_small str_nat_big)
    qed
  next
    case n: False
    show ?thesis
    proof (cases "m < 10")
      case True
      with n "1.prems" str_nat_not_Nil[of "n div 10"] show ?thesis
        by (simp add: str_nat_small str_nat_big)
    next
      case False
      with n "1.prems" have e: "str_nat (n div 10) = str_nat (m div 10)"
        and d: "(char_of (48 + n mod 10) :: char) = char_of (48 + m mod 10)"
        by (simp_all add: str_nat_big)
      from "1.IH"[OF n e] have "n div 10 = m div 10" .
      moreover from d have "n mod 10 = m mod 10" by (intro digit_inj) simp_all
      ultimately show ?thesis by (metis div_mult_mod_eq)
    qed
  qed
qed

lemma str_nat_chars: "c \<in> set (str_nat n) \<Longrightarrow> \<exists>d<10. c = char_of (48 + (d::nat))"
proof (induction n rule: str_nat.induct)
  case (1 n)
  show ?case
  proof (cases "n < 10")
    case True
    with "1.prems" show ?thesis by (auto simp: str_nat_small)
  next
    case False
    with "1.prems" have "c \<in> set (str_nat (n div 10)) \<or> c = char_of (48 + n mod 10)"
      by (auto simp: str_nat_big)
    then show ?thesis
    proof
      assume "c \<in> set (str_nat (n div 10))"
      with "1.IH"[OF False] show ?thesis by simp
    next
      assume "c = char_of (48 + n mod 10)"
      moreover have "n mod 10 < 10" by simp
      ultimately show ?thesis by blast
    qed
  qed
qed

lemma digit_range: "d < 10 \<Longrightarrow> (of_char (char_of (48 + (d::nat)) :: char) :: nat) \<in> {48..57}"
  by (simp only: of_char_of) simp

lemma str_nat_of_char: "c \<in> set (str_nat n) \<Longrightarrow> (of_char c :: nat) \<in> {48..57}"
  using str_nat_chars digit_range by blast

lemma str_int_of_char: "c \<in> set (str_int i) \<Longrightarrow> (of_char c :: nat) \<in> {45} \<union> {48..57}"
  by (auto simp: str_int_def dest: str_nat_of_char split: if_splits)

lemma str_int_inj: "str_int i = str_int j \<Longrightarrow> i = j"
proof -
  assume e: "str_int i = str_int j"
  have nd: "str_nat n \<noteq> CHR ''-'' # s" for n s
  proof
    assume "str_nat n = CHR ''-'' # s"
    then have "CHR ''-'' \<in> set (str_nat n)" by simp
    then show False by (auto dest: str_nat_of_char)
  qed
  show ?thesis
  proof (cases "i < 0")
    case i: True
    show ?thesis
    proof (cases "j < 0")
      case True
      with i e have "nat (- i) = nat (- j)" by (auto simp: str_int_def dest: str_nat_inj)
      with i True show ?thesis by simp
    next
      case False
      with i e nd[of "nat j" "str_nat (nat (- i))"] show ?thesis by (auto simp: str_int_def)
    qed
  next
    case i: False
    show ?thesis
    proof (cases "j < 0")
      case True
      with i e nd[of "nat i" "str_nat (nat (- j))"] show ?thesis by (auto simp: str_int_def)
    next
      case False
      with i e have "nat i = nat j" by (auto simp: str_int_def dest: str_nat_inj)
      with i False show ?thesis by simp
    qed
  qed
qed

lemma str_int_not_Name: "str_int i \<noteq> ''Name''"
proof
  assume "str_int i = ''Name''"
  then have "CHR ''N'' \<in> set (str_int i)" by simp
  then show False by (auto dest: str_int_of_char)
qed

lemma str_int_not_Change: "str_int i \<noteq> ''Change''"
proof
  assume "str_int i = ''Change''"
  then have "CHR ''C'' \<in> set (str_int i)" by simp
  then show False by (auto dest: str_int_of_char)
qed

section \<open>The merged frame of the rank analysis\<close>

lemma inner_join_member:
  "(n, a, b) \<in> set (inner_join left right) \<longleftrightarrow> (n, a) \<in> set left \<and> (n, b) \<in> set right"
  by (induction left) (auto simp: inner_join_def)

lemma set_inner_join:
  "set (inner_join left right) = {(n, a, b). (n, a) \<in> set left \<and> (n, b) \<in> set right}"
  using inner_join_member by auto

lemma filter_key_le_one:
  "distinct (map fst right) \<Longrightarrow> length (filter (\<lambda>(m, b). m = n) right) \<le> 1"
  by (induction right) (auto simp: filter_empty_conv image_iff)

lemma distinct_inner_join:
  assumes "distinct (map fst left)" and "distinct (map fst right)"
  shows "distinct (map fst (inner_join left right))"
  using assms(1)
proof (induction left)
  case Nil
  then show ?case by (simp add: inner_join_def)
next
  case (Cons x left)
  obtain n a where x: "x = (n, a)" by (cases x)
  let ?m = "filter (\<lambda>(m, b). m = n) right"
  have split: "inner_join (x # left) right = map (\<lambda>(m, b). (n, a, b)) ?m @ inner_join left right"
    by (simp add: inner_join_def x)
  have "length ?m \<le> 1" by (rule filter_key_le_one[OF assms(2)])
  then have d1: "distinct (map fst (map (\<lambda>(m, b). (n, a, b)) ?m))"
    by (cases ?m) (auto simp: le_Suc_eq)
  have fst1: "set (map fst (map (\<lambda>(m, b). (n, a, b)) ?m)) \<subseteq> {n}" by auto
  have "n \<notin> fst ` set left" using Cons.prems by (simp add: x)
  then have fst2: "n \<notin> set (map fst (inner_join left right))"
    by (force simp: inner_join_member image_iff)
  have d2: "distinct (map fst (inner_join left right))" using Cons by simp
  have disj: "set (map fst (map (\<lambda>(m, b). (n, a, b)) ?m)) \<inter> set (map fst (inner_join left right)) = {}"
    using fst1 fst2 by blast
  show ?case unfolding split map_append distinct_append using d1 d2 disj by blast
qed

lemma distinct_names_of_year:
  "distinct (map (\<lambda>r. (Name r, Year r)) df) \<Longrightarrow> distinct (map Name (filter (\<lambda>r. Year r = y) df))"
  by (induction df) (auto simp: image_iff)

lemma map_fst_rank_year:
  "map fst (map (\<lambda>(r, k). (Name r, k)) (rank_year df y)) = map Name (filter (\<lambda>r. Year r = y) df)"
proof -
  have z: "map (\<lambda>x. g (fst x)) (zip xs (map h xs)) = map g xs"
    for xs :: "long_row list" and h :: "long_row \<Rightarrow> int" and g :: "long_row \<Rightarrow> string"
    by (induction xs) auto
  show ?thesis
    by (simp add: rank_year_def rank_min_desc_def Let_def comp_def case_prod_unfold z)
qed

lemma rank_change_result:
  assumes "s \<noteq> e"
  shows "rank_change df s e =
     Inr \<lparr>f_Name = map fst (inner_join (map (\<lambda>(r, k). (Name r, k)) (rank_year df s))
                                        (map (\<lambda>(r, k). (Name r, k)) (rank_year df e))),
          f_cols =
            [(''Rank_'' @ str_int s,
              map (\<lambda>(n, a, b). a) (inner_join (map (\<lambda>(r, k). (Name r, k)) (rank_year df s))
                                                  (map (\<lambda>(r, k). (Name r, k)) (rank_year df e)))),
             (''Rank_'' @ str_int e,
              map (\<lambda>(n, a, b). b) (inner_join (map (\<lambda>(r, k). (Name r, k)) (rank_year df s))
                                                  (map (\<lambda>(r, k). (Name r, k)) (rank_year df e)))),
             (''Rank_Change'',
              map (\<lambda>(n, a, b). a - b) (inner_join (map (\<lambda>(r, k). (Name r, k)) (rank_year df s))
                                                  (map (\<lambda>(r, k). (Name r, k)) (rank_year df e))))]\<rparr>"
proof -
  have ne: "str_int s \<noteq> str_int e" using assms str_int_inj by blast
  have m: "map (\<lambda>(x, y). x - y) (zip (map (\<lambda>(n, a, b). a) j) (map (\<lambda>(n, a, b). b) j)) = map (\<lambda>(n, a, b). a - b) j"
    for j :: "(string \<times> int \<times> int) list"
    by (induction j) auto
  show ?thesis
    using ne by (simp add: rank_change_def merge_on_Name_def getitem_def minus_cols_def
        setitem_def Let_def str_int_not_Change not_sym[OF str_int_not_Change] m)
qed

lemma changes_rank_change:
  assumes "rank_change df s e = Inr t"
  shows "s \<noteq> e" and
    "changes t = map (\<lambda>(n, a, b). (n, a - b))
        (inner_join (map (\<lambda>(r, k). (Name r, k)) (rank_year df s))
                    (map (\<lambda>(r, k). (Name r, k)) (rank_year df e)))"
proof -
  show ne: "s \<noteq> e" using assms rank_change_same_year[of df s] by auto
  have z: "zip (map fst j) (map (\<lambda>(n, a, b). a - b) j) = map (\<lambda>(n, a, b). (n, a - b)) j"
    for j :: "(string \<times> int \<times> int) list"
    by (induction j) auto
  from assms rank_change_result[OF ne, of df] have "t = \<lparr>f_Name = map fst (inner_join (map (\<lambda>(r, k). (Name r, k)) (rank_year df s))
                                        (map (\<lambda>(r, k). (Name r, k)) (rank_year df e))),
          f_cols =
            [(''Rank_'' @ str_int s,
              map (\<lambda>(n, a, b). a) (inner_join (map (\<lambda>(r, k). (Name r, k)) (rank_year df s))
                                                  (map (\<lambda>(r, k). (Name r, k)) (rank_year df e)))),
             (''Rank_'' @ str_int e,
              map (\<lambda>(n, a, b). b) (inner_join (map (\<lambda>(r, k). (Name r, k)) (rank_year df s))
                                                  (map (\<lambda>(r, k). (Name r, k)) (rank_year df e)))),
             (''Rank_Change'',
              map (\<lambda>(n, a, b). a - b) (inner_join (map (\<lambda>(r, k). (Name r, k)) (rank_year df s))
                                                  (map (\<lambda>(r, k). (Name r, k)) (rank_year df e))))]\<rparr>"
    by simp
  then show "changes t = map (\<lambda>(n, a, b). (n, a - b))
        (inner_join (map (\<lambda>(r, k). (Name r, k)) (rank_year df s))
                    (map (\<lambda>(r, k). (Name r, k)) (rank_year df e)))"
    by (simp add: changes_def str_int_not_Change not_sym[OF str_int_not_Change] z)
qed

lemma changes_member:
  assumes "rank_change df s e = Inr t"
  shows "(X, c) \<in> set (changes t) \<longleftrightarrow>
     (\<exists>a ra b rb. (a, ra) \<in> set (rank_year df s) \<and> (b, rb) \<in> set (rank_year df e)
        \<and> Name a = X \<and> Name b = X \<and> c = ra - rb)"
proof -
  have nm: "(X, k) \<in> set (map (\<lambda>(r, k). (Name r, k)) xs) \<longleftrightarrow> (\<exists>a. (a, k) \<in> set xs \<and> Name a = X)"
    for k :: int and xs :: "(long_row \<times> int) list"
    by (induction xs) auto
  let ?L = "map (\<lambda>(r, k). (Name r, k)) (rank_year df s)"
  let ?R = "map (\<lambda>(r, k). (Name r, k)) (rank_year df e)"
  have "(X, c) \<in> set (changes t) \<longleftrightarrow> (\<exists>ra rb. (X, ra, rb) \<in> set (inner_join ?L ?R) \<and> c = ra - rb)"
    unfolding changes_rank_change(2)[OF assms] by (auto simp: image_iff) force
  also have "\<dots> \<longleftrightarrow> (\<exists>ra rb. (X, ra) \<in> set ?L \<and> (X, rb) \<in> set ?R \<and> c = ra - rb)"
    by (simp add: inner_join_member)
  also have "\<dots> \<longleftrightarrow> (\<exists>a ra b rb. (a, ra) \<in> set (rank_year df s) \<and> (b, rb) \<in> set (rank_year df e)
        \<and> Name a = X \<and> Name b = X \<and> c = ra - rb)"
    unfolding nm by blast
  finally show ?thesis .
qed

section \<open>The two outputs of the rank analysis\<close>

text \<open>Sorting the rows by a column through the positions of its entries, as
  \<^const>\<open>sort_values\<close> does, is sorting the rows; \<^const>\<open>head\<close> takes the first rows.\<close>

lemma map_insort_key: "map g (insort_key (\<lambda>a. k (g a)) x xs) = insort_key k (g x) (map g xs)"
  by (induction xs) auto

lemma map_sort_key: "map g (sort_key (\<lambda>a. k (g a)) xs) = sort_key k (map g xs)"
  by (induction xs) (auto simp: map_insort_key)

lemma insort_key_cong_on:
  "f x = f' x \<Longrightarrow> (\<forall>y \<in> set xs. f y = f' y) \<Longrightarrow> insort_key f x xs = insort_key f' x xs"
  by (induction xs) auto

lemma sort_key_cong_on: "(\<forall>x \<in> set xs. f x = f' x) \<Longrightarrow> sort_key f xs = sort_key f' xs"
proof (induction xs)
  case Nil
  then show ?case by simp
next
  case (Cons x xs)
  then have "sort_key f xs = sort_key f' xs" by simp
  moreover have "insort_key f x (sort_key f' xs) = insort_key f' x (sort_key f' xs)"
    using Cons.prems by (intro insort_key_cong_on) simp_all
  ultimately show ?case by simp
qed

lemma sort_by_position:
  "map (\<lambda>i. xs ! i) (sort_key (\<lambda>i. k (xs ! i)) [0..<length xs]) = sort_key k xs"
proof -
  have "map (\<lambda>i. xs ! i) (sort_key (\<lambda>i. k (xs ! i)) [0..<length xs]) = sort_key k (map (\<lambda>i. xs ! i) [0..<length xs])"
    by (rule map_sort_key)
  then show ?thesis by (simp add: map_nth)
qed

lemma changes_one_column:
  assumes "filter (\<lambda>(label, c). label = ''Rank_Change'') (f_cols t) = [(''Rank_Change'', C)]"
  shows "changes t = zip (f_Name t) C"
  using assms by (simp add: changes_def)

lemma changes_take_rows:
  assumes one: "filter (\<lambda>(label, c). label = ''Rank_Change'') (f_cols t) = [(''Rank_Change'', C)]"
    and len: "length C = length (f_Name t)"
    and perm: "\<forall>i \<in> set perm. i < length C"
  shows "changes (take_rows perm t) = map (\<lambda>i. changes t ! i) perm"
    and "filter (\<lambda>(label, c). label = ''Rank_Change'') (f_cols (take_rows perm t))
           = [(''Rank_Change'', map (\<lambda>i. C ! i) perm)]"
    and "f_Name (take_rows perm t) = map (\<lambda>i. f_Name t ! i) perm"
proof -
  have f: "filter (\<lambda>(label, c). label = ''Rank_Change'') (map (\<lambda>(label, c). (label, map (\<lambda>i. c ! i) perm)) cols)
      = map (\<lambda>(label, c). (label, map (\<lambda>i. c ! i) perm)) (filter (\<lambda>(label, c). label = ''Rank_Change'') cols)"
    for cols :: "(string \<times> int list) list"
    by (induction cols) auto
  show two: "filter (\<lambda>(label, c). label = ''Rank_Change'') (f_cols (take_rows perm t))
           = [(''Rank_Change'', map (\<lambda>i. C ! i) perm)]"
    by (simp add: take_rows_def f one)
  show three: "f_Name (take_rows perm t) = map (\<lambda>i. f_Name t ! i) perm"
    by (simp add: take_rows_def)
  have "changes (take_rows perm t) = zip (map (\<lambda>i. f_Name t ! i) perm) (map (\<lambda>i. C ! i) perm)"
    using changes_one_column[OF two] three by simp
  also have "\<dots> = map (\<lambda>i. (f_Name t ! i, C ! i)) perm"
    by (induction perm) auto
  also have "\<dots> = map (\<lambda>i. zip (f_Name t) C ! i) perm"
    using perm len by (intro map_cong) simp_all
  finally show "changes (take_rows perm t) = map (\<lambda>i. changes t ! i) perm"
    by (simp add: changes_one_column[OF one])
qed

lemma getitem_one_column:
  assumes "filter (\<lambda>(label, c). label = key) (f_cols t) = [(key, C)]"
  shows "getitem t key = Inr [(key, C)]"
  using assms by (simp add: getitem_def)

lemma changes_sort_values:
  assumes one: "filter (\<lambda>(label, c). label = ''Rank_Change'') (f_cols t) = [(''Rank_Change'', C)]"
    and len: "length C = length (f_Name t)"
  shows "\<exists>t'. sort_values t ''Rank_Change'' ascending = Inr t'
          \<and> changes t' = sort_key (\<lambda>(n, c). if ascending then c else - c) (changes t)
          \<and> (\<exists>C'. filter (\<lambda>(label, c). label = ''Rank_Change'') (f_cols t') = [(''Rank_Change'', C')]
                   \<and> length C' = length (f_Name t'))"
proof -
  let ?k = "\<lambda>(n :: string, c :: int). if ascending then c else - c"
  let ?perm = "sort_key (\<lambda>i. if ascending then C ! i else - (C ! i)) [0..<length C]"
  have sv: "sort_values t ''Rank_Change'' ascending = Inr (take_rows ?perm t)"
    by (simp add: sort_values_def getitem_one_column[OF one])
  have perm: "\<forall>i \<in> set ?perm. i < length C" by simp
  note tr = changes_take_rows[OF one len perm]
  have ch: "changes t = zip (f_Name t) C" by (rule changes_one_column[OF one])
  have lc: "length (changes t) = length C" using len by (simp add: ch)
  have "?perm = sort_key (\<lambda>i. ?k (changes t ! i)) [0..<length (changes t)]"
    unfolding lc by (rule sort_key_cong_on) (simp add: ch len)
  then have "map (\<lambda>i. changes t ! i) ?perm = sort_key ?k (changes t)"
    by (simp only: sort_by_position)
  with tr(1) have c: "changes (take_rows ?perm t) = sort_key ?k (changes t)" by simp
  have l: "length (map (\<lambda>i. C ! i) ?perm) = length (f_Name (take_rows ?perm t))"
    by (simp add: tr(3))
  show ?thesis using sv c tr(2) l by blast
qed

lemma changes_head:
  assumes one: "filter (\<lambda>(label, c). label = ''Rank_Change'') (f_cols t) = [(''Rank_Change'', C)]"
    and len: "length C = length (f_Name t)"
  shows "changes (head n t) = take n (changes t)"
proof -
  have perm: "\<forall>i \<in> set [0..<min n (length (f_Name t))]. i < length C" using len by simp
  have ch: "changes t = zip (f_Name t) C" by (rule changes_one_column[OF one])
  have "changes (head n t) = map (\<lambda>i. changes t ! i) [0..<min n (length (f_Name t))]"
    unfolding head_def by (rule changes_take_rows(1)[OF one len perm])
  also have "\<dots> = take n (changes t)"
    using len by (simp add: ch take_map[symmetric] map_nth min.commute
        take_zip[symmetric] list_eq_iff_nth_eq)
  finally show ?thesis .
qed

lemma rank_change_one_column:
  assumes "rank_change df s e = Inr t"
  shows "\<exists>C. filter (\<lambda>(label, c). label = ''Rank_Change'') (f_cols t) = [(''Rank_Change'', C)]
            \<and> length C = length (f_Name t)"
proof -
  have ne: "s \<noteq> e" by (rule changes_rank_change(1)[OF assms])
  show ?thesis
    using assms unfolding rank_change_result[OF ne]
    by (auto simp: str_int_not_Change not_sym[OF str_int_not_Change])
qed

lemma calculate_rank_analysis_result:
  assumes "rank_change df s e = Inr t"
  shows "\<exists>most_improved biggest_fall.
           calculate_rank_analysis df s e = Inr (most_improved, biggest_fall)
           \<and> changes most_improved = take 10 (sort_key (\<lambda>(n, c). - c) (changes t))
           \<and> changes biggest_fall = take 10 (sort_key (\<lambda>(n, c). c) (changes t))"
proof -
  from rank_change_one_column[OF assms] obtain C
    where one: "filter (\<lambda>(label, c). label = ''Rank_Change'') (f_cols t) = [(''Rank_Change'', C)]"
      and len: "length C = length (f_Name t)" by blast
  from changes_sort_values[OF one len, of False] obtain mi Cm
    where mi: "sort_values t ''Rank_Change'' False = Inr mi"
      and cmi: "changes mi = sort_key (\<lambda>(n, c). - c) (changes t)"
      and omi: "filter (\<lambda>(label, c). label = ''Rank_Change'') (f_cols mi) = [(''Rank_Change'', Cm)]"
      and lmi: "length Cm = length (f_Name mi)"
    by auto
  from changes_sort_values[OF one len, of True] obtain bf Cb
    where bf: "sort_values t ''Rank_Change'' True = Inr bf"
      and cbf: "changes bf = sort_key (\<lambda>(n, c). c) (changes t)"
      and obf: "filter (\<lambda>(label, c). label = ''Rank_Change'') (f_cols bf) = [(''Rank_Change'', Cb)]"
      and lbf: "length Cb = length (f_Name bf)"
    by auto
  have "calculate_rank_analysis df s e = Inr (head 10 mi, head 10 bf)"
    by (simp add: calculate_rank_analysis_def assms mi bf)
  moreover have "changes (head 10 mi) = take 10 (sort_key (\<lambda>(n, c). - c) (changes t))"
    by (simp add: changes_head[OF omi lmi] cmi)
  moreover have "changes (head 10 bf) = take 10 (sort_key (\<lambda>(n, c). c) (changes t))"
    by (simp add: changes_head[OF obf lbf] cbf)
  ultimately show ?thesis by blast
qed

lemma calculate_rank_analysis_rows:
  assumes "rank_change df s e = Inr t"
  shows "\<exists>most_improved biggest_fall.
           calculate_rank_analysis df s e = Inr (most_improved, biggest_fall)
           \<and> set (changes most_improved) \<subseteq> set (changes t)
           \<and> set (changes biggest_fall) \<subseteq> set (changes t)"
proof -
  from calculate_rank_analysis_result[OF assms] obtain mi bf
    where r: "calculate_rank_analysis df s e = Inr (mi, bf)"
      and m: "changes mi = take 10 (sort_key (\<lambda>(n, c). - c) (changes t))"
      and b: "changes bf = take 10 (sort_key (\<lambda>(n, c). c) (changes t))"
    by blast
  have "set (changes mi) \<subseteq> set (changes t)"
    unfolding m using set_take_subset[of 10 "sort_key (\<lambda>(n, c). - c) (changes t)"] by simp
  moreover have "set (changes bf) \<subseteq> set (changes t)"
    unfolding b using set_take_subset[of 10 "sort_key (\<lambda>(n, c). c) (changes t)"] by simp
  ultimately show ?thesis using r by blast
qed

section \<open>The rank change between two years\<close>

lemma present_in_changes:
  assumes "rank_change df s e = Inr t"
    and "a \<in> set df" "Name a = X" "Year a = s"
    and "b \<in> set df" "Name b = X" "Year b = e"
  shows "X \<in> fst ` set (changes t)"
proof -
  obtain ra where ra: "(a, ra) \<in> set (rank_year df s)" using assms(2,4) by (simp add: rank_year_member)
  obtain rb where rb: "(b, rb) \<in> set (rank_year df e)" using assms(5,7) by (simp add: rank_year_member)
  have "(X, ra - rb) \<in> set (changes t)"
    unfolding changes_member[OF assms(1)] using ra rb assms(3,6) by blast
  then show ?thesis by force
qed

lemma distinct_changes:
  assumes "rank_change df s e = Inr t" and "distinct (map (\<lambda>r. (Name r, Year r)) df)"
  shows "distinct (map fst (changes t))"
proof -
  have m: "map fst (map (\<lambda>(n, a, b). (n, a - b)) j) = map fst j" for j :: "(string \<times> int \<times> int) list"
    by (induction j) auto
  show ?thesis
    unfolding changes_rank_change(2)[OF assms(1)] m
    by (intro distinct_inner_join) (simp_all only: map_fst_rank_year distinct_names_of_year[OF assms(2)])
qed

text \<open>
  Claim C3. Whenever the rank analysis of \<open>start_year\<close> against \<open>end_year\<close> yields its
  merged frame, so does the analysis with the years exchanged, and a country has the rank
  change \<open>c\<close> in the one exactly when it has \<open>- c\<close> in the other. Every country with a row
  in both years is in both frames, and when the long form has one row per country and
  year, so has each frame one row per country. The two outputs of the analysis, the ten
  most improved and the ten biggest falls, are rows of the merged frame, so the rank change
  that an output shows for a country is the negated rank change that the analysis with
  the years exchanged has for it. For two different years the merged frame is always
  there; for a year against itself it never is, as shown above for one year given twice.
\<close>

theorem rank_change_sign_flips:
  "(start_year \<noteq> end_year \<longrightarrow> (\<exists>t. rank_change df start_year end_year = Inr t))
   \<and> (\<forall>t. rank_change df start_year end_year = Inr t \<longrightarrow>
         (\<exists>t'. rank_change df end_year start_year = Inr t'
            \<and> (\<forall>X c. (X, c) \<in> set (changes t) \<longleftrightarrow> (X, - c) \<in> set (changes t'))
            \<and> (\<forall>X. (\<exists>a \<in> set df. Name a = X \<and> Year a = start_year)
                    \<and> (\<exists>b \<in> set df. Name b = X \<and> Year b = end_year)
                  \<longrightarrow> X \<in> fst ` set (changes t) \<and> X \<in> fst ` set (changes t'))
            \<and> (distinct (map (\<lambda>r. (Name r, Year r)) df)
                  \<longrightarrow> distinct (map fst (changes t)) \<and> distinct (map fst (changes t')))
            \<and> (\<exists>most_improved biggest_fall.
                  calculate_rank_analysis df start_year end_year = Inr (most_improved, biggest_fall)
                  \<and> set (changes most_improved) \<subseteq> set (changes t)
                  \<and> set (changes biggest_fall) \<subseteq> set (changes t))
            \<and> (\<exists>most_improved biggest_fall.
                  calculate_rank_analysis df end_year start_year = Inr (most_improved, biggest_fall)
                  \<and> set (changes most_improved) \<subseteq> set (changes t')
                  \<and> set (changes biggest_fall) \<subseteq> set (changes t'))))"
proof (intro conjI impI allI)
  assume "start_year \<noteq> end_year"
  then show "\<exists>t. rank_change df start_year end_year = Inr t"
    by (simp add: rank_change_result)
next
  fix t
  assume t: "rank_change df start_year end_year = Inr t"
  then have ne: "end_year \<noteq> start_year" using changes_rank_change(1) by blast
  then obtain t' where t': "rank_change df end_year start_year = Inr t'"
    by (simp add: rank_change_result)
  have flip: "(X, c) \<in> set (changes t) \<longleftrightarrow> (X, - c) \<in> set (changes t')" for X c
  proof -
    have "(X, c) \<in> set (changes t) \<longleftrightarrow>
        (\<exists>a ra b rb. (a, ra) \<in> set (rank_year df start_year) \<and> (b, rb) \<in> set (rank_year df end_year)
          \<and> Name a = X \<and> Name b = X \<and> c = ra - rb)"
      by (rule changes_member[OF t])
    also have "\<dots> \<longleftrightarrow>
        (\<exists>b rb a ra. (b, rb) \<in> set (rank_year df end_year) \<and> (a, ra) \<in> set (rank_year df start_year)
          \<and> Name b = X \<and> Name a = X \<and> - c = rb - ra)"
      by (metis minus_diff_eq equation_minus_iff)
    also have "\<dots> \<longleftrightarrow> (X, - c) \<in> set (changes t')"
      by (rule changes_member[OF t', symmetric])
    finally show ?thesis .
  qed
  have pres: "X \<in> fst ` set (changes t) \<and> X \<in> fst ` set (changes t')"
    if "(\<exists>a \<in> set df. Name a = X \<and> Year a = start_year) \<and> (\<exists>b \<in> set df. Name b = X \<and> Year b = end_year)" for X
    using that present_in_changes[OF t] present_in_changes[OF t'] by blast
  have dist: "distinct (map fst (changes t)) \<and> distinct (map fst (changes t'))"
    if "distinct (map (\<lambda>r. (Name r, Year r)) df)"
    using that distinct_changes[OF t] distinct_changes[OF t'] by blast
  show "\<exists>t'. rank_change df end_year start_year = Inr t'
            \<and> (\<forall>X c. (X, c) \<in> set (changes t) \<longleftrightarrow> (X, - c) \<in> set (changes t'))
            \<and> (\<forall>X. (\<exists>a \<in> set df. Name a = X \<and> Year a = start_year)
                    \<and> (\<exists>b \<in> set df. Name b = X \<and> Year b = end_year)
                  \<longrightarrow> X \<in> fst ` set (changes t) \<and> X \<in> fst ` set (changes t'))
            \<and> (distinct (map (\<lambda>r. (Name r, Year r)) df)
                  \<longrightarrow> distinct (map fst (changes t)) \<and> distinct (map fst (changes t')))
            \<and> (\<exists>most_improved biggest_fall.
                  calculate_rank_analysis df start_year end_year = Inr (most_improved, biggest_fall)
                  \<and> set (changes most_improved) \<subseteq> set (changes t)
                  \<and> set (changes biggest_fall) \<subseteq> set (changes t))
            \<and> (\<exists>most_improved biggest_fall.
                  calculate_rank_analysis df end_year start_year = Inr (most_improved, biggest_fall)
                  \<and> set (changes most_improved) \<subseteq> set (changes t')
                  \<and> set (changes biggest_fall) \<subseteq> set (changes t'))"
    using t' flip pres dist calculate_rank_analysis_rows[OF t] calculate_rank_analysis_rows[OF t']
    by blast
qed

lemma str_int_2020: "str_int 2020 = ''2020''"
  by code_simp

lemma str_int_2021: "str_int 2021 = ''2021''"
  by code_simp

lemma scenario_rank_2020:
  "rank_year scenario_long 2020 =
     [(\<lparr>Year = 2020, Name = ''A'', Posts = 5\<rparr>, 1), (\<lparr>Year = 2020, Name = ''B'', Posts = 2\<rparr>, 2)]"
  by code_simp

lemma scenario_rank_2021:
  "rank_year scenario_long 2021 =
     [(\<lparr>Year = 2021, Name = ''A'', Posts = 3\<rparr>, 2), (\<lparr>Year = 2021, Name = ''B'', Posts = 6\<rparr>, 1)]"
  by code_simp

lemma scenario_forward:
  "rank_change scenario_long 2020 2021 =
     Inr \<lparr>f_Name = [''A'', ''B''],
          f_cols = [(''Rank_2020'', [1, 2]), (''Rank_2021'', [2, 1]), (''Rank_Change'', [- 1, 1])]\<rparr>"
  by (simp add: rank_change_def scenario_rank_2020 scenario_rank_2021 str_int_2020 str_int_2021
      merge_on_Name_def inner_join_def getitem_def minus_cols_def setitem_def Let_def)

lemma scenario_backward:
  "rank_change scenario_long 2021 2020 =
     Inr \<lparr>f_Name = [''A'', ''B''],
          f_cols = [(''Rank_2021'', [2, 1]), (''Rank_2020'', [1, 2]), (''Rank_Change'', [1, - 1])]\<rparr>"
  by (simp add: rank_change_def scenario_rank_2020 scenario_rank_2021 str_int_2020 str_int_2021
      merge_on_Name_def inner_join_def getitem_def minus_cols_def setitem_def Let_def)

lemma scenario_analysis:
  "calculate_rank_analysis scenario_long 2020 2021 =
     Inr (\<lparr>f_Name = [''B'', ''A''],
           f_cols = [(''Rank_2020'', [2, 1]), (''Rank_2021'', [1, 2]), (''Rank_Change'', [1, - 1])]\<rparr>,
          \<lparr>f_Name = [''A'', ''B''],
           f_cols = [(''Rank_2020'', [1, 2]), (''Rank_2021'', [2, 1]), (''Rank_Change'', [- 1, 1])]\<rparr>)"
  by (simp add: calculate_rank_analysis_def scenario_forward sort_values_def getitem_def
      take_rows_def head_def)

theorem rank_change_sign_flips_witness:
  "rank_change scenario_long 2020 2021 =
     Inr \<lparr>f_Name = [''A'', ''B''],
          f_cols = [(''Rank_2020'', [1, 2]), (''Rank_2021'', [2, 1]), (''Rank_Change'', [- 1, 1])]\<rparr>
   \<and> rank_change scenario_long 2021 2020 =
     Inr \<lparr>f_Name = [''A'', ''B''],
          f_cols = [(''Rank_2021'', [2, 1]), (''Rank_2020'', [1, 2]), (''Rank_Change'', [1, - 1])]\<rparr>
   \<and> (''B'', 1) \<in> set (changes \<lparr>f_Name = [''A'', ''B''],
          f_cols = [(''Rank_2020'', [1, 2]), (''Rank_2021'', [2, 1]), (''Rank_Change'', [- 1, 1])]\<rparr>)
   \<and> (''B'', - 1) \<in> set (changes \<lparr>f_Name = [''A'', ''B''],
          f_cols = [(''Rank_2021'', [2, 1]), (''Rank_2020'', [1, 2]), (''Rank_Change'', [1, - 1])]\<rparr>)
   \<and> calculate_rank_analysis scenario_long 2020 2021 =
     Inr (\<lparr>f_Name = [''B'', ''A''],
           f_cols = [(''Rank_2020'', [2, 1]), (''Rank_2021'', [1, 2]), (''Rank_Change'', [1, - 1])]\<rparr>,
          \<lparr>f_Name = [''A'', ''B''],
           f_cols = [(''Rank_2020'', [1, 2]), (''Rank_2021'', [2, 1]), (''Rank_Change'', [- 1, 1])]\<rparr>)"
proof -
  have b: "(''B'', 1) \<in> set (changes \<lparr>f_Name = [''A'', ''B''],
          f_cols = [(''Rank_2020'', [1, 2]), (''Rank_2021'', [2, 1]), (''Rank_Change'', [- 1, 1])]\<rparr>)"
    by (simp add: changes_def)
  show ?thesis
    using rank_change_sign_flips [of 2020 2021 scenario_long] scenario_forward scenario_backward
      scenario_analysis b
    by auto
qed

section \<open>The wide pivot\<close>

lemma position_None: "position x xs = None \<longleftrightarrow> x \<notin> set xs"
  by (induction xs) auto

lemma position_Some: "position x xs = Some i \<Longrightarrow> i < length xs \<and> xs ! i = x"
  by (induction xs arbitrary: i) (auto split: if_splits)

lemma position_map_inj: "inj f \<Longrightarrow> position (f x) (map f xs) = position x xs"
  by (induction xs) (auto dest: injD)

lemma cell_pivot_table:
  "cell (pivot_table ix col val df) i c =
     (if i \<in> ix ` set df \<and> c \<in> col ` set df
      then Some (mean (map val (filter (\<lambda>r. ix r = i \<and> col r = c) df)))
      else None)"
proof (cases "position i (sort (remdups (map ix df)))")
  case None
  then have "i \<notin> ix ` set df" by (simp add: position_None)
  with None show ?thesis by (simp add: cell_def pivot_table_def Let_def)
next
  case (Some a)
  note a = position_Some[OF Some]
  have i: "i \<in> ix ` set df" using Some position_None[of i "sort (remdups (map ix df))"] by auto
  show ?thesis
  proof (cases "position c (sort (remdups (map col df)))")
    case None
    then have "c \<notin> col ` set df" by (simp add: position_None)
    with None Some show ?thesis by (simp add: cell_def pivot_table_def Let_def)
  next
    case b': (Some b)
    note b = position_Some[OF b']
    have c: "c \<in> col ` set df" using b' position_None[of c "sort (remdups (map col df))"] by auto
    show ?thesis
      using Some b' a b i c by (simp add: cell_def pivot_table_def Let_def)
  qed
qed

lemma filter_distinct_key:
  "distinct (map k xs) \<Longrightarrow> r \<in> set xs \<Longrightarrow> filter (\<lambda>x. k x = k r) xs = [r]"
proof (induction xs)
  case Nil
  then show ?case by simp
next
  case (Cons x xs)
  show ?case
  proof (cases "x = r")
    case True
    have "filter (\<lambda>x. k x = k r) xs = []"
      using Cons.prems(1) True by (auto simp: filter_empty_conv image_iff)
    with True show ?thesis by simp
  next
    case False
    then have r: "r \<in> set xs" using Cons.prems(2) by simp
    then have "k x \<noteq> k r" using Cons.prems(1) by (auto simp: image_iff)
    with Cons.IH r Cons.prems(1) show ?thesis by simp
  qed
qed

lemma mean_single: "mean [p] = Some (real p)"
  by (simp add: mean_def)

lemma cell_pivot_table_present:
  assumes "distinct (map (\<lambda>r. (ix r, col r)) df)" and "r \<in> set df"
  shows "cell (pivot_table ix col val df) (ix r) (col r) = Some (Some (real (val r)))"
proof -
  have "filter (\<lambda>x. (ix x, col x) = (ix r, col r)) df = [r]"
    by (rule filter_distinct_key[OF assms])
  then have "filter (\<lambda>x. ix x = ix r \<and> col x = col r) df = [r]" by simp
  then show ?thesis using assms(2) by (simp add: cell_pivot_table mean_single)
qed

lemma cell_pivot_table_absent:
  assumes "(i, c) \<notin> (\<lambda>r. (ix r, col r)) ` set df"
  shows "cell (pivot_table ix col val df) i c =
           (if i \<in> ix ` set df \<and> c \<in> col ` set df then Some None else None)"
proof -
  have "filter (\<lambda>r. ix r = i \<and> col r = c) df = []"
    using assms by (auto simp: filter_empty_conv image_iff)
  then show ?thesis by (simp add: cell_pivot_table mean_def)
qed

lemma str_year_inj: "str_year is_float i = str_year is_float j \<Longrightarrow> i = j"
  by (auto simp: str_year_def dest: str_int_inj split: if_splits)

lemma wide_cell_to_wide:
  "wide_cell (to_wide is_float df_long) country (str_year is_float y)
     = cell (pivot_table Name Year Posts df_long) country y"
proof -
  let ?pv = "pivot_table Name Year Posts df_long"
  have inj: "inj (str_year is_float)" by (auto intro: injI dest: str_year_inj)
  have vals: "p_values ?pv = map (\<lambda>i. map (\<lambda>c. mean (map Posts (filter (\<lambda>r. Name r = i \<and> Year r = c) df_long))) (p_columns ?pv)) (p_index ?pv)"
    by (simp add: pivot_table_def Let_def)
  have row: "map_of (zip (p_index ?pv) (p_values ?pv)) country =
      (if country \<in> set (p_index ?pv)
       then Some (map (\<lambda>c. mean (map Posts (filter (\<lambda>r. Name r = country \<and> Year r = c) df_long))) (p_columns ?pv))
       else None)"
    unfolding vals by (simp add: map_of_zip_map)
  show ?thesis
  proof (cases "position country (p_index ?pv)")
    case None
    then have "country \<notin> set (p_index ?pv)" by (simp add: position_None)
    with None row show ?thesis by (simp add: wide_cell_def to_wide_def Let_def cell_def)
  next
    case (Some a)
    note a = position_Some[OF Some]
    then have mem: "country \<in> set (p_index ?pv)" by (metis nth_mem)
    show ?thesis
    proof (cases "position y (p_columns ?pv)")
      case None
      with Some mem row show ?thesis
        by (simp add: wide_cell_def to_wide_def Let_def cell_def position_map_inj[OF inj])
    next
      case b': (Some b)
      note b = position_Some[OF b']
      have "p_values ?pv ! a ! b = mean (map Posts (filter (\<lambda>r. Name r = country \<and> Year r = y) df_long))"
        unfolding vals using a b by simp
      with Some b' mem row b show ?thesis
        by (simp add: wide_cell_def to_wide_def Let_def cell_def position_map_inj[OF inj])
    qed
  qed
qed

text \<open>
  Claim C5. After loading, the wide pivot has, for every row of the long form, the posts
  of that row in the row of its country and the column labelled with \<^verbatim>\<open>str\<close> of its
  year, as the column \<^verbatim>\<open>Year\<close> holds it. For a pair of country and year that is not
  in the long form the cell is missing (\<^verbatim>\<open>NaN\<close>) when the country and the year both
  occur, and there is no such cell otherwise; it is never a number.
\<close>

theorem wide_pivot_cells:
  assumes "load_and_prepare_data r = Inr (df_wide, df_long, df_detail)"
  shows "(\<forall>row \<in> set df_long.
            wide_cell df_wide (Name row) (str_year (year_is_float (rows df_detail)) (Year row))
              = Some (Some (real (Posts row))))
         \<and> (\<forall>country year. (country, year) \<notin> (\<lambda>row. (Name row, Year row)) ` set df_long \<longrightarrow>
              wide_cell df_wide country (str_year (year_is_float (rows df_detail)) year) =
                (if country \<in> Name ` set df_long \<and> year \<in> Year ` set df_long then Some None else None))"
proof -
  from assms obtain sh where "r = Read_ok sh"
    by (cases r) (auto simp: load_and_prepare_data_def)
  with assms have l: "df_long = to_long_form (rows sh)"
    and w: "df_wide = to_wide (year_is_float (rows df_detail)) df_long"
    by (auto simp: load_and_prepare_data_def Let_def split: if_splits)
  have d: "distinct (map (\<lambda>r. (Name r, Year r)) df_long)" unfolding l by (rule distinct_long_keys)
  show ?thesis
    unfolding w wide_cell_to_wide
    using cell_pivot_table_present[OF d, of _ Posts] cell_pivot_table_absent[of _ _ Name Year df_long Posts]
    by blast
qed

lemma example_year_is_int: "year_is_float (rows example_sheet) = False"
  by (simp add: year_is_float_def example_sheet_def post_def)

lemma example_load:
  "load_and_prepare_data (Read_ok example_sheet)
     = Inr (to_wide False example_long, example_long, example_sheet)"
  by (simp add: load_and_prepare_data_def required_cols_def example_long_form
      example_year_is_int Let_def) (simp add: example_sheet_def)

theorem wide_pivot_cells_witness:
  "load_and_prepare_data (Read_ok example_sheet)
     = Inr (to_wide False example_long, example_long, example_sheet)
   \<and> wide_cell (to_wide False example_long) ''C'' (str_year False 2020) = Some (Some 3)
   \<and> wide_cell (to_wide False example_long) ''C'' (str_year False 2021) = Some None
   \<and> wide_cell (to_wide False example_long) ''D'' (str_year False 2021) = None"
proof -
  have c: "\<lparr>Year = 2020, Name = ''C'', Posts = 3\<rparr> \<in> set example_long"
    by (simp add: example_long_def)
  have n1: "(''C'', 2021) \<notin> (\<lambda>row. (Name row, Year row)) ` set example_long"
    and n2: "(''D'', 2021) \<notin> (\<lambda>row. (Name row, Year row)) ` set example_long"
    and m: "''C'' \<in> Name ` set example_long" "2021 \<in> Year ` set example_long" "''D'' \<notin> Name ` set example_long"
    by (simp_all add: example_long_def)
  show ?thesis
    using wide_pivot_cells [OF example_load] example_load c n1 n2 m example_year_is_int
    by fastforce
qed

section \<open>The counts of embassies and consulates\<close>

lemma map_of_set_column:
  "map_of (c_cols (set_column df key v)) k =
     (if k = key
      then Some (case v of Scalar a \<Rightarrow> replicate (length (c_index df)) a | Column c \<Rightarrow> c)
      else map_of (c_cols df) k)"
proof -
  let ?c = "case v of Scalar a \<Rightarrow> replicate (length (c_index df)) a | Column c \<Rightarrow> c"
  have repl: "map_of (map (\<lambda>(l, old). if l = key then (l, c) else (l, old)) cols) k =
      (if k = key then (if key \<in> fst ` set cols then Some c else None) else map_of cols k)"
    for c :: "nat list" and cols
    by (induction cols) force+
  have app: "key \<notin> fst ` set cols \<Longrightarrow> map_of (cols @ [(key, c)]) k = (if k = key then Some c else map_of cols k)"
    for c :: "nat list" and cols
    by (induction cols) auto
  show ?thesis
  proof (cases "key \<in> fst ` set (c_cols df)")
    case True
    then have "c_cols (set_column df key v) =
        map (\<lambda>(l, old). if l = key then (l, ?c) else (l, old)) (c_cols df)"
      by (simp add: set_column_def Let_def)
    then show ?thesis using True by (simp only: repl) simp
  next
    case False
    then have "c_cols (set_column df key v) = c_cols df @ [(key, ?c)]"
      by (simp add: set_column_def Let_def)
    then show ?thesis using app[OF False] by simp
  qed
qed

lemma c_index_set_column: "c_index (set_column df key v) = c_index df"
  by (simp add: set_column_def Let_def)

lemma get_set_column: "k \<noteq> key \<Longrightarrow> get (set_column df key v) k d = get df k d"
  by (simp add: get_def map_of_set_column)

lemma titled_Some: "titled r = Some (c, t) \<longleftrightarrow> COUNTRY r = Some c \<and> POST_TYPE_TITLE r = Some t"
  by (auto simp: titled_def split: option.splits)

lemma dropna_titled_Cons:
  "dropna (map titled (x # df)) =
     (case COUNTRY x of
        None \<Rightarrow> dropna (map titled df)
      | Some c \<Rightarrow>
         (case POST_TYPE_TITLE x of
            None \<Rightarrow> dropna (map titled df)
          | Some t \<Rightarrow> (c, t) # dropna (map titled df)))"
  by (simp add: titled_def split: option.splits)

lemma set_titled:
  "set (dropna (map titled df))
     = {(c, t). \<exists>x \<in> set df. COUNTRY x = Some c \<and> POST_TYPE_TITLE x = Some t}"
proof (induction df)
  case Nil
  then show ?case by simp
next
  case (Cons x df)
  show ?case
    unfolding dropna_titled_Cons using Cons by (auto split: option.splits)
qed

lemma count_titled:
  "count_list (dropna (map titled df)) (c, t)
     = length (filter (\<lambda>x. COUNTRY x = Some c \<and> POST_TYPE_TITLE x = Some t) df)"
proof (induction df)
  case Nil
  then show ?case by simp
next
  case (Cons x df)
  show ?case
    unfolding dropna_titled_Cons using Cons by (auto split: option.splits)
qed

lemma c_index_value_counts_unstack:
  "c_index (value_counts_unstack df) = sort (remdups (map fst (dropna (map titled df))))"
  by (simp add: value_counts_unstack_def Let_def)

lemma get_value_counts_unstack:
  "get (value_counts_unstack df) t 0 =
     (if t \<in> snd ` set (dropna (map titled df))
      then Column (map (\<lambda>c. count_list (dropna (map titled df)) (c, t))
                     (sort (remdups (map fst (dropna (map titled df))))))
      else Scalar 0)"
proof -
  have m: "map_of (map (\<lambda>t. (t, f t)) ts) t = (if t \<in> set ts then Some (f t) else None)"
    for f :: "string \<Rightarrow> nat list" and ts
    by (induction ts) auto
  show ?thesis
    by (simp add: get_def value_counts_unstack_def Let_def m)
qed

lemma sum_column:
  "(case plus_operand (get (value_counts_unstack df) a 0) (get (value_counts_unstack df) b 0) of
      Scalar n \<Rightarrow> replicate (length (c_index (value_counts_unstack df))) n
    | Column c \<Rightarrow> c) =
   map (\<lambda>c. count_list (dropna (map titled df)) (c, a) + count_list (dropna (map titled df)) (c, b))
     (sort (remdups (map fst (dropna (map titled df)))))"
proof -
  let ?pairs = "dropna (map titled df)"
  have none: "t \<notin> snd ` set ?pairs \<Longrightarrow> count_list ?pairs (c, t) = 0" for t c
    by (force simp: count_list_0_iff)
  have z: "map (\<lambda>(x, y). x + y) (zip (map f xs) (map g xs)) = map (\<lambda>c. f c + g c) xs"
    for f g :: "string \<Rightarrow> nat" and xs
    by (induction xs) auto
  have r: "replicate (length xs) (0::nat) = map (\<lambda>c. 0) xs" for xs :: "string list"
    by (induction xs) auto
  show ?thesis
    unfolding c_index_value_counts_unstack get_value_counts_unstack
    by (cases "a \<in> snd ` set ?pairs"; cases "b \<in> snd ` set ?pairs")
       (simp_all add: none z r comp_def del: length_sort)
qed

lemma embassies_consulates_post_type_counts:
  "embassies_consulates (post_type_counts df) =
     Inr (map (\<lambda>c. (c,
                 length (filter (\<lambda>r. COUNTRY r = Some c \<and> POST_TYPE_TITLE r = Some ''Embassy'') df)
                   + length (filter (\<lambda>r. COUNTRY r = Some c \<and> POST_TYPE_TITLE r = Some ''High Commission'') df),
                 length (filter (\<lambda>r. COUNTRY r = Some c \<and> POST_TYPE_TITLE r = Some ''Consulate'') df)
                   + length (filter (\<lambda>r. COUNTRY r = Some c \<and> POST_TYPE_TITLE r = Some ''Consulate General'') df)))
            (sort (remdups (map fst (dropna (map titled df))))))"
proof -
  let ?pairs = "dropna (map titled df)"
  let ?idx = "sort (remdups (map fst ?pairs))"
  have z: "zip xs (zip (map f xs) (map g xs)) = map (\<lambda>c. (c, f c, g c)) xs"
    for f g :: "string \<Rightarrow> nat" and xs
    by (induction xs) auto
  have "embassies_consulates (post_type_counts df) =
      Inr (zip (c_index (value_counts_unstack df))
             (zip (case plus_operand (get (value_counts_unstack df) ''Embassy'' 0)
                         (get (value_counts_unstack df) ''High Commission'' 0) of
                     Scalar n \<Rightarrow> replicate (length (c_index (value_counts_unstack df))) n
                   | Column c \<Rightarrow> c)
                  (case plus_operand (get (value_counts_unstack df) ''Consulate'' 0)
                         (get (value_counts_unstack df) ''Consulate General'' 0) of
                     Scalar n \<Rightarrow> replicate (length (c_index (value_counts_unstack df))) n
                   | Column c \<Rightarrow> c)))"
    by (simp add: embassies_consulates_def post_type_counts_def Let_def map_of_set_column
        c_index_set_column get_set_column cong: operand.case_cong)
  also have "\<dots> = Inr (zip ?idx
             (zip (map (\<lambda>c. count_list ?pairs (c, ''Embassy'') + count_list ?pairs (c, ''High Commission'')) ?idx)
                  (map (\<lambda>c. count_list ?pairs (c, ''Consulate'') + count_list ?pairs (c, ''Consulate General'')) ?idx)))"
    by (simp only: sum_column) (simp only: c_index_value_counts_unstack)
  finally show ?thesis
    by (simp only: z count_titled)
qed

lemma set_drop_duplicates: "set (drop_duplicates key seen xs) \<subseteq> set xs"
  by (induction xs arbitrary: seen) auto

lemma drop_duplicates_keys:
  "key ` set (drop_duplicates key seen xs) = key ` set xs - set seen"
  by (induction xs arbitrary: seen) auto

lemma filter_key_map:
  "distinct xs \<Longrightarrow> x \<in> set xs \<Longrightarrow>
   filter (\<lambda>t. fst t = x) (map (\<lambda>c. (c, f c, g c)) xs) = [(x, f x, g x)]"
proof (induction xs)
  case Nil
  then show ?case by simp
next
  case (Cons y xs)
  have e: "x \<notin> set xs \<Longrightarrow> filter (\<lambda>t. fst t = x) (map (\<lambda>c. (c, f c, g c)) xs) = []"
    by (auto simp: filter_empty_conv)
  from Cons e show ?case by auto
qed

lemma filter_key_map_absent:
  "x \<notin> set xs \<Longrightarrow> filter (\<lambda>t. fst t = x) (map (\<lambda>c. (c, f c, g c)) xs) = []"
  by (auto simp: filter_empty_conv)

text \<open>The left join with counts that have one row per country: a joined row gets the counts
  of its country, or two missing cells when the counts have no row for it.\<close>

lemma merge_left_eq:
  assumes "distinct xs"
  shows "merge_left df_merged (map (\<lambda>c. (c, f c, g c)) xs) =
     map (\<lambda>(m, country, p).
            \<lparr>Rank = OVERALL_RANK m, Country = country, Population = POPULATION_M m,
             Gdp = GDP_B_USD m, TOTAL_POSTS = p,
             Embassies = (if country \<in> set xs then Some (f country) else None),
             Consulates = (if country \<in> set xs then Some (g country) else None)\<rparr>) df_merged"
proof (induction df_merged)
  case Nil
  then show ?case by (simp add: merge_left_def)
next
  case (Cons mp df_merged)
  have step: "merge_left (mp # df_merged) (map (\<lambda>c. (c, f c, g c)) xs) =
      \<lparr>Rank = OVERALL_RANK (fst mp), Country = fst (snd mp), Population = POPULATION_M (fst mp),
        Gdp = GDP_B_USD (fst mp), TOTAL_POSTS = snd (snd mp),
        Embassies = (if fst (snd mp) \<in> set xs then Some (f (fst (snd mp))) else None),
        Consulates = (if fst (snd mp) \<in> set xs then Some (g (fst (snd mp))) else None)\<rparr>
      # merge_left df_merged (map (\<lambda>c. (c, f c, g c)) xs)"
  proof (cases "fst (snd mp) \<in> set xs")
    case True
    note one = filter_key_map[OF assms True, of f g]
    show ?thesis
      unfolding merge_left_def case_prod_unfold using True by (simp add: one)
  next
    case False
    note none = filter_key_map_absent[OF False, of f g]
    show ?thesis
      unfolding merge_left_def case_prod_unfold using False by (simp add: none)
  qed
  show ?case
    unfolding step using Cons by (simp add: case_prod_unfold)
qed

lemma merge_inner_member:
  "(m, c, p) \<in> set (merge_inner df_meta df_total_posts) \<longleftrightarrow>
     m \<in> set df_meta \<and> COUNTRY m = Some c \<and> (c, p) \<in> set df_total_posts"
  by (induction df_meta) (auto simp: merge_inner_def)

section \<open>The ranking table of one year\<close>

lemma missing_label_None: "missing_label cols labels = None \<longleftrightarrow> set labels \<subseteq> set cols"
proof -
  have "missing_label cols labels = None \<longleftrightarrow> filter (\<lambda>l. l \<notin> set cols) labels = []"
    by (simp add: missing_label_def split: list.splits)
  also have "\<dots> \<longleftrightarrow> set labels \<subseteq> set cols"
    by (auto simp: filter_empty_conv)
  finally show ?thesis .
qed

lemma missing_label_Some:
  "missing_label cols labels = Some e \<Longrightarrow> \<exists>l. e = KeyError l \<and> l \<in> set labels \<and> l \<notin> set cols"
proof -
  assume a: "missing_label cols labels = Some e"
  then obtain l ls where f: "filter (\<lambda>l. l \<notin> set cols) labels = l # ls" and e: "e = KeyError l"
    by (auto simp: missing_label_def split: list.splits)
  from f have "l \<in> set (filter (\<lambda>l. l \<notin> set cols) labels)" by simp
  with e show ?thesis by auto
qed

text \<open>The countries of a year that have a post with a title.\<close>

lemma titled_countries:
  "set (sort (remdups (map fst (dropna (map titled (filter (\<lambda>r. Year r = Some y) (rows df)))))))
     = {c. \<exists>r \<in> set (rows df). Year r = Some y \<and> COUNTRY r = Some c \<and> POST_TYPE_TITLE r \<noteq> None}"
  by (force simp: set_titled image_iff)

lemma final_display_result:
  assumes "set [''Year'', ''COUNTRY'', ''POST TYPE TITLE'', ''OVERALL RANK'', ''POPULATION (M)'', ''GDP (B, USD)'']
             \<subseteq> set (columns df_detail)"
  shows "final_display df_detail df_long y =
     Inr (map (\<lambda>(m, country, p).
            \<lparr>Rank = OVERALL_RANK m, Country = country, Population = POPULATION_M m,
             Gdp = GDP_B_USD m, TOTAL_POSTS = p,
             Embassies =
               (if \<exists>r \<in> set (rows df_detail). Year r = Some y \<and> COUNTRY r = Some country
                                                \<and> POST_TYPE_TITLE r \<noteq> None
                then Some (posts_of_type df_detail y country ''Embassy''
                           + posts_of_type df_detail y country ''High Commission'')
                else None),
             Consulates =
               (if \<exists>r \<in> set (rows df_detail). Year r = Some y \<and> COUNTRY r = Some country
                                                \<and> POST_TYPE_TITLE r \<noteq> None
                then Some (posts_of_type df_detail y country ''Consulate''
                           + posts_of_type df_detail y country ''Consulate General'')
                else None)\<rparr>)
          (merge_inner (drop_duplicates COUNTRY [] (filter (\<lambda>r. Year r = Some y) (rows df_detail)))
             (map (\<lambda>r. (Name r, Posts r)) (filter (\<lambda>r. Year r = y) df_long))))"
proof -
  let ?R = "filter (\<lambda>r. Year r = Some y) (rows df_detail)"
  let ?idx = "sort (remdups (map fst (dropna (map titled ?R))))"
  have ml: "missing_label (columns df_detail)
      [''Year'', ''COUNTRY'', ''POST TYPE TITLE'', ''OVERALL RANK'', ''POPULATION (M)'', ''GDP (B, USD)''] = None"
    using assms by (simp only: missing_label_None)
  have cnt: "length (filter (\<lambda>r. COUNTRY r = Some c \<and> POST_TYPE_TITLE r = Some t) ?R)
      = posts_of_type df_detail y c t" for c t
    by (simp add: posts_of_type_def conj_commute conj_left_commute cong: conj_cong)
  have d: "distinct ?idx" by simp
  have mem: "c \<in> set ?idx \<longleftrightarrow>
      (\<exists>r \<in> set (rows df_detail). Year r = Some y \<and> COUNTRY r = Some c \<and> POST_TYPE_TITLE r \<noteq> None)" for c
    unfolding titled_countries by simp
  show ?thesis
    unfolding final_display_def ml Let_def embassies_consulates_post_type_counts cnt
    by (simp only: option.case sum.case merge_left_eq[OF d] mem)
qed

lemma final_display_error:
  assumes "final_display df_detail df_long y = Inl e"
  shows "\<exists>l. e = KeyError l \<and> l \<notin> set (columns df_detail)"
proof (cases "missing_label (columns df_detail)
      [''Year'', ''COUNTRY'', ''POST TYPE TITLE'', ''OVERALL RANK'', ''POPULATION (M)'', ''GDP (B, USD)'']")
  case None
  with assms show ?thesis
    by (simp add: final_display_def Let_def embassies_consulates_post_type_counts)
next
  case (Some e')
  with assms have "e' = e" by (simp add: final_display_def)
  with missing_label_Some[OF Some] show ?thesis by blast
qed

lemma final_display_columns:
  assumes "final_display df_detail df_long y = Inr shown"
  shows "set [''Year'', ''COUNTRY'', ''POST TYPE TITLE'', ''OVERALL RANK'', ''POPULATION (M)'', ''GDP (B, USD)'']
             \<subseteq> set (columns df_detail)"
proof (rule ccontr)
  assume "\<not> ?thesis"
  then have "missing_label (columns df_detail)
      [''Year'', ''COUNTRY'', ''POST TYPE TITLE'', ''OVERALL RANK'', ''POPULATION (M)'', ''GDP (B, USD)''] \<noteq> None"
    by (simp only: missing_label_None) simp
  with assms show False by (auto simp: final_display_def)
qed

lemma display_final_display:
  "display df_detail df_long y = (case final_display df_detail df_long y of Inl e \<Rightarrow> Inl e | Inr shown \<Rightarrow> Inr (sort_key Rank shown))"
  by (simp add: display_def)

text \<open>
  What the table has for every row: the two counts of the row's country when the country
  has a post with a title in the year, and two missing cells when all its titles are
  blank.
\<close>

lemma display_counts:
  assumes "display df_detail df_long year = Inr out" and "row \<in> set out"
  shows "(if \<exists>r \<in> set (rows df_detail). Year r = Some year \<and> COUNTRY r = Some (Country row)
                                          \<and> POST_TYPE_TITLE r \<noteq> None
          then Embassies row =
                 Some (posts_of_type df_detail year (Country row) ''Embassy''
                       + posts_of_type df_detail year (Country row) ''High Commission'')
             \<and> Consulates row =
                 Some (posts_of_type df_detail year (Country row) ''Consulate''
                       + posts_of_type df_detail year (Country row) ''Consulate General'')
          else Embassies row = None \<and> Consulates row = None)"
proof -
  from assms(1) obtain shown where shown: "final_display df_detail df_long year = Inr shown"
    and o: "out = sort_key Rank shown"
    by (auto simp: display_final_display split: sum.splits)
  from assms(2) o have "row \<in> set shown" by simp
  then obtain mcp :: "raw_post \<times> string \<times> nat" where "row = (\<lambda>(m, country, p).
            \<lparr>Rank = OVERALL_RANK m, Country = country, Population = POPULATION_M m,
             Gdp = GDP_B_USD m, TOTAL_POSTS = p,
             Embassies =
               (if \<exists>r \<in> set (rows df_detail). Year r = Some year \<and> COUNTRY r = Some country
                                                \<and> POST_TYPE_TITLE r \<noteq> None
                then Some (posts_of_type df_detail year country ''Embassy''
                           + posts_of_type df_detail year country ''High Commission'')
                else None),
             Consulates =
               (if \<exists>r \<in> set (rows df_detail). Year r = Some year \<and> COUNTRY r = Some country
                                                \<and> POST_TYPE_TITLE r \<noteq> None
                then Some (posts_of_type df_detail year country ''Consulate''
                           + posts_of_type df_detail year country ''Consulate General'')
                else None)\<rparr>) mcp"
    using shown unfolding final_display_result[OF final_display_columns[OF shown]] by auto
  then show ?thesis by (cases mcp) auto
qed

lemma blank_display_2020:
  "display blank_sheet blank_long 2020 =
     Inr [\<lparr>Rank = 1, Country = ''A'', Population = 1, Gdp = 1, TOTAL_POSTS = 2,
            Embassies = Some 2, Consulates = Some 0\<rparr>,
          \<lparr>Rank = 2, Country = ''B'', Population = 1, Gdp = 1, TOTAL_POSTS = 1,
            Embassies = None, Consulates = None\<rparr>]"
  by code_simp

text \<open>
  Claim C6 says that a country of the table whose posts carry none of the four titles has
  the number 0 in \<^verbatim>\<open>Embassies\<close> and \<^verbatim>\<open>Consulates\<close>. In the sheet with blank cells
  the one post of \<open>B\<close> in 2020 has a blank title: \<open>B\<close> is in the long form, with one post,
  and has no post with one of the four titles, and the table of 2020 has two missing
  cells in its row. The counts of line 94 have no row for a country without a title, and
  the left join of line 106 fills nothing in.
\<close>

theorem summary_blank_title_gives_missing_counts:
  "to_long_form (rows blank_sheet)
     = [\<lparr>Year = 2020, Name = ''A'', Posts = 2\<rparr>, \<lparr>Year = 2020, Name = ''B'', Posts = 1\<rparr>]
   \<and> display blank_sheet (to_long_form (rows blank_sheet)) 2020 =
     Inr [\<lparr>Rank = 1, Country = ''A'', Population = 1, Gdp = 1, TOTAL_POSTS = 2,
            Embassies = Some 2, Consulates = Some 0\<rparr>,
          \<lparr>Rank = 2, Country = ''B'', Population = 1, Gdp = 1, TOTAL_POSTS = 1,
            Embassies = None, Consulates = None\<rparr>]
   \<and> posts_of_type blank_sheet 2020 ''B'' ''Embassy'' = 0
   \<and> posts_of_type blank_sheet 2020 ''B'' ''High Commission'' = 0
   \<and> posts_of_type blank_sheet 2020 ''B'' ''Consulate'' = 0
   \<and> posts_of_type blank_sheet 2020 ''B'' ''Consulate General'' = 0"
proof -
  have p: "posts_of_type blank_sheet 2020 ''B'' ''Embassy'' = 0"
    "posts_of_type blank_sheet 2020 ''B'' ''High Commission'' = 0"
    "posts_of_type blank_sheet 2020 ''B'' ''Consulate'' = 0"
    "posts_of_type blank_sheet 2020 ''B'' ''Consulate General'' = 0"
    by (simp_all add: posts_of_type_def blank_sheet_def post_def)
  show ?thesis
    using p blank_display_2020 by (simp add: blank_long_form) (simp add: blank_long_def)
qed

section \<open>Rows of equal rank\<close>

lemma countries_final_display:
  assumes "final_display df_detail df_long y = Inr shown"
  shows "Country ` set shown =
           {c. (\<exists>r \<in> set (rows df_detail). Year r = Some y \<and> COUNTRY r = Some c)
               \<and> (\<exists>l \<in> set df_long. Year l = y \<and> Name l = c)}"
proof -
  let ?R = "filter (\<lambda>r. Year r = Some y) (rows df_detail)"
  let ?T = "map (\<lambda>r. (Name r, Posts r)) (filter (\<lambda>r. Year r = y) df_long)"
  let ?M = "merge_inner (drop_duplicates COUNTRY [] ?R) ?T"
  have "\<exists>f. shown = map f ?M \<and> (\<forall>mcp. Country (f mcp) = fst (snd mcp))"
    using assms unfolding final_display_result[OF final_display_columns[OF assms]]
    by (intro exI[of _ "\<lambda>(m, country, p).
            \<lparr>Rank = OVERALL_RANK m, Country = country, Population = POPULATION_M m,
             Gdp = GDP_B_USD m, TOTAL_POSTS = p,
             Embassies =
               (if \<exists>r \<in> set (rows df_detail). Year r = Some y \<and> COUNTRY r = Some country
                                                \<and> POST_TYPE_TITLE r \<noteq> None
                then Some (posts_of_type df_detail y country ''Embassy''
                           + posts_of_type df_detail y country ''High Commission'')
                else None),
             Consulates =
               (if \<exists>r \<in> set (rows df_detail). Year r = Some y \<and> COUNTRY r = Some country
                                                \<and> POST_TYPE_TITLE r \<noteq> None
                then Some (posts_of_type df_detail y country ''Consulate''
                           + posts_of_type df_detail y country ''Consulate General'')
                else None)\<rparr>"]) (simp add: case_prod_unfold)
  then obtain f :: "raw_post \<times> string \<times> nat \<Rightarrow> summary_row"
    where f: "shown = map f ?M" "\<And>mcp. Country (f mcp) = fst (snd mcp)"
    by blast
  have "Country ` set shown = (\<lambda>mcp. fst (snd mcp)) ` set ?M"
    unfolding f(1) by (simp add: image_image f(2))
  also have "\<dots> = {c. Some c \<in> COUNTRY ` set (drop_duplicates COUNTRY [] ?R) \<and> c \<in> fst ` set ?T}"
  proof (intro set_eqI iffI)
    fix c
    assume "c \<in> (\<lambda>mcp. fst (snd mcp)) ` set ?M"
    then obtain m p where mp: "(m, c, p) \<in> set ?M" by force
    then have "m \<in> set (drop_duplicates COUNTRY [] ?R)" and "COUNTRY m = Some c" and "(c, p) \<in> set ?T"
      by (simp_all add: merge_inner_member)
    then show "c \<in> {c. Some c \<in> COUNTRY ` set (drop_duplicates COUNTRY [] ?R) \<and> c \<in> fst ` set ?T}"
      by force
  next
    fix c
    assume "c \<in> {c. Some c \<in> COUNTRY ` set (drop_duplicates COUNTRY [] ?R) \<and> c \<in> fst ` set ?T}"
    then obtain m p where m: "m \<in> set (drop_duplicates COUNTRY [] ?R)" "COUNTRY m = Some c"
      and p: "(c, p) \<in> set ?T" by force
    then have "(m, c, p) \<in> set ?M" by (simp add: merge_inner_member)
    then show "c \<in> (\<lambda>mcp. fst (snd mcp)) ` set ?M" by force
  qed
  also have "\<dots> = {c. (\<exists>r \<in> set (rows df_detail). Year r = Some y \<and> COUNTRY r = Some c)
               \<and> (\<exists>l \<in> set df_long. Year l = y \<and> Name l = c)}"
    unfolding drop_duplicates_keys by (auto simp: image_iff)
  finally show ?thesis .
qed

text \<open>
  Claim C7. Two countries with the same overall rank in a year do not keep the table from
  being built: with its columns in the sheet the table is there whatever the ranks are,
  and the only error is the \<^verbatim>\<open>KeyError\<close> of a column that the sheet lacks. The table
  is the joined frame in ascending order of \<^verbatim>\<open>Rank\<close>: the same rows, each as often,
  so the rows of equal rank are all kept, and there is a row for exactly the countries
  with a post in the sheet and a total in the long form for the year. The table is a
  function of the sheet, the long form and the year, so building it twice gives the same
  rows. Nothing is stated about the order among the rows of equal rank: \<^const>\<open>display\<close>
  sorts stably, which the default sort of pandas does not promise.
\<close>

theorem summary_keeps_rows_of_equal_rank:
  "(set [''Year'', ''COUNTRY'', ''POST TYPE TITLE'', ''OVERALL RANK'', ''POPULATION (M)'', ''GDP (B, USD)'']
        \<subseteq> set (columns df_detail)
      \<longrightarrow> (\<exists>out. display df_detail df_long year = Inr out))
   \<and> (\<forall>e. display df_detail df_long year = Inl e \<longrightarrow>
          (\<exists>label. e = KeyError label \<and> label \<notin> set (columns df_detail)))
   \<and> (\<forall>shown. final_display df_detail df_long year = Inr shown \<longrightarrow>
          (\<exists>out. display df_detail df_long year = Inr out
             \<and> mset out = mset shown
             \<and> sorted (map Rank out)
             \<and> (\<forall>a \<in> set shown. \<forall>b \<in> set shown. a \<noteq> b \<and> Rank a = Rank b \<longrightarrow>
                   a \<in> set out \<and> b \<in> set out)
             \<and> Country ` set out =
                 {c. (\<exists>r \<in> set (rows df_detail). Year r = Some year \<and> COUNTRY r = Some c)
                     \<and> (\<exists>l \<in> set df_long. Year l = year \<and> Name l = c)}))"
proof (intro conjI impI allI)
  assume "set [''Year'', ''COUNTRY'', ''POST TYPE TITLE'', ''OVERALL RANK'', ''POPULATION (M)'', ''GDP (B, USD)'']
        \<subseteq> set (columns df_detail)"
  then show "\<exists>out. display df_detail df_long year = Inr out"
    by (simp add: display_final_display final_display_result)
next
  fix e
  assume "display df_detail df_long year = Inl e"
  then have "final_display df_detail df_long year = Inl e"
    by (simp add: display_final_display split: sum.splits)
  then show "\<exists>label. e = KeyError label \<and> label \<notin> set (columns df_detail)"
    by (rule final_display_error)
next
  fix shown
  assume shown: "final_display df_detail df_long year = Inr shown"
  then have d: "display df_detail df_long year = Inr (sort_key Rank shown)"
    by (simp add: display_final_display)
  have c: "Country ` set (sort_key Rank shown) =
                 {c. (\<exists>r \<in> set (rows df_detail). Year r = Some year \<and> COUNTRY r = Some c)
                     \<and> (\<exists>l \<in> set df_long. Year l = year \<and> Name l = c)}"
    using countries_final_display[OF shown] by simp
  show "\<exists>out. display df_detail df_long year = Inr out
             \<and> mset out = mset shown
             \<and> sorted (map Rank out)
             \<and> (\<forall>a \<in> set shown. \<forall>b \<in> set shown. a \<noteq> b \<and> Rank a = Rank b \<longrightarrow>
                   a \<in> set out \<and> b \<in> set out)
             \<and> Country ` set out =
                 {c. (\<exists>r \<in> set (rows df_detail). Year r = Some year \<and> COUNTRY r = Some c)
                     \<and> (\<exists>l \<in> set df_long. Year l = year \<and> Name l = c)}"
    using d c by (intro exI[of _ "sort_key Rank shown"]) simp
qed

lemma example_final_display_2020:
  "final_display example_sheet example_long 2020 =
     Inr [\<lparr>Rank = 2, Country = ''C'', Population = 1, Gdp = 1, TOTAL_POSTS = 3,
            Embassies = Some 1, Consulates = Some 1\<rparr>,
          \<lparr>Rank = 2, Country = ''B'', Population = 1, Gdp = 1, TOTAL_POSTS = 1,
            Embassies = Some 0, Consulates = Some 0\<rparr>,
          \<lparr>Rank = 1, Country = ''A'', Population = 1, Gdp = 1, TOTAL_POSTS = 1,
            Embassies = Some 1, Consulates = Some 0\<rparr>]"
  by code_simp

theorem summary_keeps_rows_of_equal_rank_witness:
  "final_display example_sheet example_long 2020 =
     Inr [\<lparr>Rank = 2, Country = ''C'', Population = 1, Gdp = 1, TOTAL_POSTS = 3,
            Embassies = Some 1, Consulates = Some 1\<rparr>,
          \<lparr>Rank = 2, Country = ''B'', Population = 1, Gdp = 1, TOTAL_POSTS = 1,
            Embassies = Some 0, Consulates = Some 0\<rparr>,
          \<lparr>Rank = 1, Country = ''A'', Population = 1, Gdp = 1, TOTAL_POSTS = 1,
            Embassies = Some 1, Consulates = Some 0\<rparr>]
   \<and> (\<exists>out. display example_sheet example_long 2020 = Inr out
          \<and> mset out =
              mset [\<lparr>Rank = 2, Country = ''C'', Population = 1, Gdp = 1, TOTAL_POSTS = 3,
                      Embassies = Some 1, Consulates = Some 1\<rparr>,
                    \<lparr>Rank = 2, Country = ''B'', Population = 1, Gdp = 1, TOTAL_POSTS = 1,
                      Embassies = Some 0, Consulates = Some 0\<rparr>,
                    \<lparr>Rank = 1, Country = ''A'', Population = 1, Gdp = 1, TOTAL_POSTS = 1,
                      Embassies = Some 1, Consulates = Some 0\<rparr>]
          \<and> sorted (map Rank out)
          \<and> Country ` set out = {''A'', ''B'', ''C''})
   \<and> set (columns example_sheet) =
       {''COUNTRY'', ''Year'', ''OVERALL RANK'', ''POPULATION (M)'', ''GDP (B, USD)'',
        ''POST TYPE TITLE'', ''POST COUNTRY''}"
proof -
  have c: "set (columns example_sheet) =
       {''COUNTRY'', ''Year'', ''OVERALL RANK'', ''POPULATION (M)'', ''GDP (B, USD)'',
        ''POST TYPE TITLE'', ''POST COUNTRY''}"
    by (simp add: example_sheet_def)
  from summary_keeps_rows_of_equal_rank [of example_sheet example_long 2020]
    example_final_display_2020
  obtain out where o: "display example_sheet example_long 2020 = Inr out"
    and m: "mset out =
              mset [\<lparr>Rank = 2, Country = ''C'', Population = 1, Gdp = 1, TOTAL_POSTS = 3,
                      Embassies = Some 1, Consulates = Some 1\<rparr>,
                    \<lparr>Rank = 2, Country = ''B'', Population = 1, Gdp = 1, TOTAL_POSTS = 1,
                      Embassies = Some 0, Consulates = Some 0\<rparr>,
                    \<lparr>Rank = 1, Country = ''A'', Population = 1, Gdp = 1, TOTAL_POSTS = 1,
                      Embassies = Some 1, Consulates = Some 0\<rparr>]"
    and s: "sorted (map Rank out)"
    by auto
  from m have "set out = set [\<lparr>Rank = 2, Country = ''C'', Population = 1, Gdp = 1, TOTAL_POSTS = 3,
                      Embassies = Some 1, Consulates = Some 1\<rparr>,
                    \<lparr>Rank = 2, Country = ''B'', Population = 1, Gdp = 1, TOTAL_POSTS = 1,
                      Embassies = Some 0, Consulates = Some 0\<rparr>,
                    \<lparr>Rank = 1, Country = ''A'', Population = 1, Gdp = 1, TOTAL_POSTS = 1,
                      Embassies = Some 1, Consulates = Some 0\<rparr>]"
    by (rule mset_eq_setD)
  then have k: "Country ` set out = {''A'', ''B'', ''C''}" by auto
  show ?thesis
    using example_final_display_2020 o m s k c by blast
qed

section \<open>The footprint of a country\<close>

lemma sum_list_sort_key: "sum_list (map g (sort_key f ys)) = sum_list (map (g :: 'a \<Rightarrow> nat) ys)"
proof -
  have "sum_mset (image_mset g (mset (sort_key f ys))) = sum_mset (image_mset g (mset ys))" by simp
  then show ?thesis by (metis mset_map sum_mset_sum_list)
qed

lemma set_value_counts:
  "set (value_counts cells) = (\<lambda>v. (v, count_list (dropna cells) v)) ` set (dropna cells)"
  by (simp add: value_counts_def Let_def)

lemma map_fst_value_counts_mset:
  "mset (map fst (value_counts cells)) = mset (rev (remdups (rev (dropna cells))))"
proof -
  have "mset (map fst (value_counts cells)) = image_mset fst (mset (value_counts cells))" by simp
  also have "\<dots> = image_mset fst (mset (map (\<lambda>v. (v, count_list (dropna cells) v))
                       (rev (remdups (rev (dropna cells))))))"
    by (simp add: value_counts_def Let_def)
  also have "\<dots> = mset (rev (remdups (rev (dropna cells))))"
    by (simp add: image_mset.compositionality comp_def)
  finally show ?thesis .
qed

lemma distinct_value_counts: "distinct (map fst (value_counts cells))"
proof -
  have "distinct (rev (remdups (rev (dropna cells))))" by simp
  then show ?thesis
    using map_fst_value_counts_mset[of cells] by (metis mset_eq_imp_distinct_iff)
qed

lemma sum_value_counts:
  "sum_list (map snd (value_counts cells)) = length (filter (\<lambda>v. v \<noteq> None) cells)"
proof -
  let ?xs = "dropna cells"
  have "sum_list (map snd (value_counts cells)) =
      sum_list (map snd (map (\<lambda>v. (v, count_list ?xs v)) (rev (remdups (rev ?xs)))))"
    unfolding value_counts_def Let_def by (rule sum_list_sort_key)
  also have "\<dots> = sum_list (map (count_list ?xs) (rev (remdups (rev ?xs))))"
    by (simp add: comp_def)
  also have "\<dots> = sum (count_list ?xs) (set (rev (remdups (rev ?xs))))"
    by (rule sum_list_distinct_conv_sum_set) simp
  also have "\<dots> = length ?xs"
    by (simp add: sum_count_set)
  finally show ?thesis by (simp only: length_dropna)
qed

lemma value_counts_Nil: "value_counts cells = [] \<longleftrightarrow> dropna cells = []"
proof -
  have "value_counts cells = [] \<longleftrightarrow> set (value_counts cells) = {}" by simp
  also have "\<dots> \<longleftrightarrow> dropna cells = []" unfolding set_value_counts by simp
  finally show ?thesis .
qed

lemma count_list_map: "count_list (map f xs) v = length (filter (\<lambda>r. f r = v) xs)"
  by (induction xs) auto

lemma footprint_result:
  assumes "footprint df y c = Inr fp"
  shows "fp = value_counts (map POST_COUNTRY
               (filter (\<lambda>r. Year r = Some y \<and> COUNTRY r = Some c) (rows df)))"
  using assms
  by (auto simp: footprint_def Let_def conj_commute split: option.splits)

lemma length_filter_split:
  "length (filter P xs) = length (filter (\<lambda>x. P x \<and> Q x) xs) + length (filter (\<lambda>x. P x \<and> \<not> Q x) xs)"
  by (induction xs) auto

text \<open>
  Claim C10, as the program has it. With the columns \<^verbatim>\<open>Year\<close>, \<^verbatim>\<open>COUNTRY\<close> and
  \<^verbatim>\<open>POST COUNTRY\<close> in the sheet, the footprint of a country in a year is there, and its
  counts add up to the number of the country's posts of the year whose host country is
  not blank: \<^verbatim>\<open>value_counts\<close> leaves the blank cells out. Together with the posts of a
  blank host country they make the posts of the long form's row for that country and
  year, so the footprint partitions that total when no host country of the country's
  posts of the year is blank. When the long form has no such row the footprint is empty.
  Each host country occurs once, with the number of the country's posts of the year in
  that host, which is not 0.
\<close>

theorem footprint_counts_posts_with_host:
  "(set [''Year'', ''COUNTRY'', ''POST COUNTRY''] \<subseteq> set (columns df_detail)
      \<longrightarrow> (\<exists>fp. footprint df_detail year country = Inr fp))
   \<and> (\<forall>fp. footprint df_detail year country = Inr fp \<longrightarrow>
         sum_list (map snd fp)
           = length (filter (\<lambda>r. Year r = Some year \<and> COUNTRY r = Some country
                                  \<and> POST_COUNTRY r \<noteq> None) (rows df_detail))
       \<and> (\<forall>l \<in> set (to_long_form (rows df_detail)).
             Name l = country \<and> Year l = year \<longrightarrow>
               sum_list (map snd fp)
                 + length (filter (\<lambda>r. Year r = Some year \<and> COUNTRY r = Some country
                                        \<and> POST_COUNTRY r = None) (rows df_detail))
               = Posts l)
       \<and> (\<forall>l \<in> set (to_long_form (rows df_detail)).
             Name l = country \<and> Year l = year
             \<and> (\<forall>r \<in> set (rows df_detail).
                   Year r = Some year \<and> COUNTRY r = Some country \<longrightarrow> POST_COUNTRY r \<noteq> None)
             \<longrightarrow> sum_list (map snd fp) = Posts l)
       \<and> ((country, year) \<notin> (\<lambda>l. (Name l, Year l)) ` set (to_long_form (rows df_detail))
             \<longrightarrow> fp = [])
       \<and> distinct (map fst fp)
       \<and> (\<forall>(host, n) \<in> set fp.
             0 < n \<and>
             n = length (filter (\<lambda>r. Year r = Some year \<and> COUNTRY r = Some country
                                      \<and> POST_COUNTRY r = Some host)
                           (rows df_detail))))"
proof (intro conjI impI allI)
  assume "set [''Year'', ''COUNTRY'', ''POST COUNTRY''] \<subseteq> set (columns df_detail)"
  then have "missing_label (columns df_detail) [''Year'', ''COUNTRY'', ''POST COUNTRY''] = None"
    by (simp only: missing_label_None)
  then show "\<exists>fp. footprint df_detail year country = Inr fp"
    by (simp add: footprint_def Let_def)
next
  fix fp
  assume fp: "footprint df_detail year country = Inr fp"
  let ?K = "\<lambda>r. Year r = Some year \<and> COUNTRY r = Some country"
  let ?P = "filter ?K (rows df_detail)"
  note r = footprint_result[OF fp]
  have "sum_list (map snd fp) = length (filter (\<lambda>v. v \<noteq> None) (map POST_COUNTRY ?P))"
    unfolding r by (rule sum_value_counts)
  also have "\<dots> = length (filter (\<lambda>r. POST_COUNTRY r \<noteq> None) ?P)"
    by (simp add: filter_map comp_def)
  also have "\<dots> = length (filter (\<lambda>r. Year r = Some year \<and> COUNTRY r = Some country
                                  \<and> POST_COUNTRY r \<noteq> None) (rows df_detail))"
    by (simp add: conj_commute conj_left_commute cong: conj_cong)
  finally show total: "sum_list (map snd fp)
           = length (filter (\<lambda>r. Year r = Some year \<and> COUNTRY r = Some country
                                  \<and> POST_COUNTRY r \<noteq> None) (rows df_detail))" .
  have split: "length ?P
      = length (filter (\<lambda>r. Year r = Some year \<and> COUNTRY r = Some country
                                  \<and> POST_COUNTRY r \<noteq> None) (rows df_detail))
        + length (filter (\<lambda>r. Year r = Some year \<and> COUNTRY r = Some country
                                  \<and> POST_COUNTRY r = None) (rows df_detail))"
    using length_filter_split[of ?K "rows df_detail" "\<lambda>r. POST_COUNTRY r \<noteq> None"]
    by (simp add: conj_assoc)
  have posts: "Posts l = length ?P"
    if l: "l \<in> set (to_long_form (rows df_detail))" and k: "Name l = country \<and> Year l = year"
    for l
  proof -
    from l have "Posts l = length (filter (\<lambda>x. COUNTRY x = Some (Name l) \<and> Year x = Some (Year l))
                                      (rows df_detail))"
      by (simp add: long_member)
    also have "\<dots> = length ?P" using k by (simp add: conj_commute)
    finally show ?thesis .
  qed
  show "\<forall>l \<in> set (to_long_form (rows df_detail)).
             Name l = country \<and> Year l = year \<longrightarrow>
               sum_list (map snd fp)
                 + length (filter (\<lambda>r. Year r = Some year \<and> COUNTRY r = Some country
                                        \<and> POST_COUNTRY r = None) (rows df_detail))
               = Posts l"
    using posts split total by simp
  show "\<forall>l \<in> set (to_long_form (rows df_detail)).
             Name l = country \<and> Year l = year
             \<and> (\<forall>r \<in> set (rows df_detail).
                   Year r = Some year \<and> COUNTRY r = Some country \<longrightarrow> POST_COUNTRY r \<noteq> None)
             \<longrightarrow> sum_list (map snd fp) = Posts l"
  proof (intro ballI impI)
    fix l
    assume l: "l \<in> set (to_long_form (rows df_detail))"
      and k: "Name l = country \<and> Year l = year
             \<and> (\<forall>r \<in> set (rows df_detail).
                   Year r = Some year \<and> COUNTRY r = Some country \<longrightarrow> POST_COUNTRY r \<noteq> None)"
    then have "filter (\<lambda>r. Year r = Some year \<and> COUNTRY r = Some country
                                  \<and> POST_COUNTRY r = None) (rows df_detail) = []"
      by (auto simp: filter_empty_conv)
    with posts[OF l] k split total show "sum_list (map snd fp) = Posts l" by simp
  qed
  show "fp = []"
    if "(country, year) \<notin> (\<lambda>l. (Name l, Year l)) ` set (to_long_form (rows df_detail))"
  proof -
    have "set (map (\<lambda>r. (Name r, Year r)) (to_long_form (rows df_detail)))
        = {(c, y). \<exists>x \<in> set (rows df_detail). COUNTRY x = Some c \<and> Year x = Some y}"
      by (simp only: long_keys set_sort set_remdups set_group_keys)
    with that have "\<not> (\<exists>x \<in> set (rows df_detail). COUNTRY x = Some country \<and> Year x = Some year)"
      by auto
    then have "?P = []" by (auto simp: filter_empty_conv)
    then show ?thesis unfolding r by (simp add: value_counts_Nil)
  qed
  show "distinct (map fst fp)" unfolding r by (rule distinct_value_counts)
  show "\<forall>(host, n) \<in> set fp.
             0 < n \<and>
             n = length (filter (\<lambda>r. Year r = Some year \<and> COUNTRY r = Some country
                                      \<and> POST_COUNTRY r = Some host)
                           (rows df_detail))"
  proof (intro ballI, unfold case_prod_unfold)
    fix hn
    assume "hn \<in> set fp"
    then have h: "fst hn \<in> set (dropna (map POST_COUNTRY ?P))"
      and n: "snd hn = count_list (dropna (map POST_COUNTRY ?P)) (fst hn)"
      unfolding r set_value_counts by auto
    have "count_list (dropna (map POST_COUNTRY ?P)) (fst hn)
        = length (filter (\<lambda>v. v = Some (fst hn)) (map POST_COUNTRY ?P))"
      by (rule count_list_dropna)
    also have "\<dots> = length (filter (\<lambda>r. POST_COUNTRY r = Some (fst hn)) ?P)"
      by (simp add: filter_map comp_def)
    also have "\<dots> = length (filter (\<lambda>r. Year r = Some year \<and> COUNTRY r = Some country
                                      \<and> POST_COUNTRY r = Some (fst hn))
                           (rows df_detail))"
      by (simp add: conj_commute conj_left_commute cong: conj_cong)
    finally have eq: "snd hn = length (filter (\<lambda>r. Year r = Some year \<and> COUNTRY r = Some country
                                      \<and> POST_COUNTRY r = Some (fst hn))
                           (rows df_detail))"
      using n by simp
    from h have "count_list (dropna (map POST_COUNTRY ?P)) (fst hn) \<noteq> 0"
      by (simp only: count_list_0_iff) simp
    then have "0 < count_list (dropna (map POST_COUNTRY ?P)) (fst hn)" by simp
    with n eq show "0 < snd hn \<and> snd hn = length (filter (\<lambda>r. Year r = Some year \<and> COUNTRY r = Some country
                                      \<and> POST_COUNTRY r = Some (fst hn))
                           (rows df_detail))"
      by simp
  qed
qed

lemma example_footprint:
  "footprint example_sheet 2020 ''C'' = Inr [(''X'', 2), (''Y'', 1)]"
  "footprint example_sheet 2022 ''C'' = Inr []"
  by code_simp+

lemma blank_footprint: "footprint blank_sheet 2020 ''A'' = Inr [(''X'', 1)]"
  by code_simp

theorem footprint_counts_posts_with_host_witness:
  "footprint example_sheet 2020 ''C'' = Inr [(''X'', 2), (''Y'', 1)]
   \<and> \<lparr>Year = 2020, Name = ''C'', Posts = 3\<rparr> \<in> set (to_long_form (rows example_sheet))
   \<and> sum_list (map snd [(''X'', 2 :: nat), (''Y'', 1)])
       + length (filter (\<lambda>r. Year r = Some 2020 \<and> COUNTRY r = Some ''C'' \<and> POST_COUNTRY r = None)
                   (rows example_sheet))
       = Posts \<lparr>Year = 2020, Name = ''C'', Posts = 3\<rparr>
   \<and> set (columns example_sheet) =
       {''COUNTRY'', ''Year'', ''OVERALL RANK'', ''POPULATION (M)'', ''GDP (B, USD)'',
        ''POST TYPE TITLE'', ''POST COUNTRY''}"
proof -
  have l: "\<lparr>Year = 2020, Name = ''C'', Posts = 3\<rparr> \<in> set (to_long_form (rows example_sheet))"
    by (simp add: example_long_form example_long_def)
  have c: "set (columns example_sheet) =
       {''COUNTRY'', ''Year'', ''OVERALL RANK'', ''POPULATION (M)'', ''GDP (B, USD)'',
        ''POST TYPE TITLE'', ''POST COUNTRY''}"
    by (simp add: example_sheet_def)
  note t = footprint_counts_posts_with_host [of example_sheet 2020 "''C''",
      THEN conjunct2, rule_format, OF example_footprint(1)]
  from t [THEN conjunct2, THEN conjunct1, THEN bspec, OF l]
  have "sum_list (map snd [(''X'', 2 :: nat), (''Y'', 1)])
       + length (filter (\<lambda>r. Year r = Some 2020 \<and> COUNTRY r = Some ''C'' \<and> POST_COUNTRY r = None)
                   (rows example_sheet))
       = Posts \<lparr>Year = 2020, Name = ''C'', Posts = 3\<rparr>"
    by simp
  with example_footprint(1) l c show ?thesis by blast
qed

text \<open>
  The claim as the specification words it fails on a sheet in which one of the two posts
  of country A in 2020 has a blank host country: the long form counts 2 posts and the
  footprint 1.
\<close>

theorem footprint_leaves_out_blank_host:
  "footprint blank_sheet 2020 ''A'' = Inr [(''X'', 1)]
   \<and> \<lparr>Year = 2020, Name = ''A'', Posts = 2\<rparr> \<in> set (to_long_form (rows blank_sheet))
   \<and> sum_list (map snd [(''X'', 1 :: nat)]) = 1
   \<and> Posts \<lparr>Year = 2020, Name = ''A'', Posts = 2\<rparr> = 2"
  by (simp add: blank_footprint blank_long_form blank_long_def)

section \<open>The trend of a selection of countries\<close>

lemma distinct_swap_keys:
  "distinct (map (\<lambda>r. (f r, g r)) xs) \<Longrightarrow> distinct (map (\<lambda>r. (g r, f r)) xs)"
  by (induction xs) (auto simp: image_iff)

lemma trend_result:
  "selected \<noteq> [] \<Longrightarrow>
   trend df_long selected =
     Some (pivot_table Year Name Posts
             (filter (\<lambda>r. Name r \<in> set selected \<and> Year r \<noteq> 2019) df_long))"
  by (simp add: trend_def Let_def conj_commute)

lemma trend_Some:
  assumes "trend df_long selected = Some pv"
  shows "selected \<noteq> []"
    and "pv = pivot_table Year Name Posts
             (filter (\<lambda>r. Name r \<in> set selected \<and> Year r \<noteq> 2019) df_long)"
proof -
  show s: "selected \<noteq> []" using assms by (auto simp: trend_def)
  show "pv = pivot_table Year Name Posts
             (filter (\<lambda>r. Name r \<in> set selected \<and> Year r \<noteq> 2019) df_long)"
    using assms trend_result[OF s, of df_long] by simp
qed

lemma mean_Some: "mean vs = Some v \<Longrightarrow> vs \<noteq> []"
  by (auto simp: mean_def)

text \<open>
  Claim C9, as the program has it. The program has no set of excluded years: line 142 drops
  the year 2019 and no other, and the pivot is built only when a country is selected.
  For a long form with one row per country and year: a non-empty selection gives a
  pivot and an empty one gives none; a pivot has no row for 2019 and no column for a country that was not selected;
  every row of the long form of another year and a selected country is in it with its
  posts; and every number in it is the posts of such a row, so a country without a row in
  a year has no number there.
\<close>

theorem trend_of_selected_countries_without_2019:
  assumes "distinct (map (\<lambda>r. (Name r, Year r)) df_long)"
  shows "(selected \<noteq> [] \<longrightarrow> (\<exists>pv. trend df_long selected = Some pv))
     \<and> (selected = [] \<longrightarrow> trend df_long selected = None)
     \<and> (\<forall>pv. trend df_long selected = Some pv \<longrightarrow>
           2019 \<notin> set (p_index pv)
         \<and> set (p_columns pv) \<subseteq> set selected
         \<and> (\<forall>r \<in> set df_long. Year r \<noteq> 2019 \<and> Name r \<in> set selected \<longrightarrow>
               cell pv (Year r) (Name r) = Some (Some (real (Posts r))))
         \<and> (\<forall>year country v. cell pv year country = Some (Some v) \<longrightarrow>
               year \<noteq> 2019 \<and> country \<in> set selected
               \<and> (\<exists>r \<in> set df_long. Year r = year \<and> Name r = country \<and> v = real (Posts r))))"
proof (intro conjI impI allI)
  assume "selected \<noteq> []"
  then show "\<exists>pv. trend df_long selected = Some pv" by (simp add: trend_result)
next
  assume "selected = []"
  then show "trend df_long selected = None" by (simp add: trend_def)
next
  fix pv
  assume t: "trend df_long selected = Some pv"
  let ?F = "filter (\<lambda>r. Name r \<in> set selected \<and> Year r \<noteq> 2019) df_long"
  note pv = trend_Some(2)[OF t]
  have d: "distinct (map (\<lambda>r. (Year r, Name r)) ?F)"
    by (rule distinct_swap_keys) (rule distinct_map_filter[OF assms])
  show "2019 \<notin> set (p_index pv)"
    unfolding pv by (auto simp: pivot_table_def Let_def)
  show "set (p_columns pv) \<subseteq> set selected"
    unfolding pv by (auto simp: pivot_table_def Let_def)
  show "\<forall>r \<in> set df_long. Year r \<noteq> 2019 \<and> Name r \<in> set selected \<longrightarrow>
               cell pv (Year r) (Name r) = Some (Some (real (Posts r)))"
  proof (intro ballI impI)
    fix r
    assume "r \<in> set df_long" and "Year r \<noteq> 2019 \<and> Name r \<in> set selected"
    then have "r \<in> set ?F" by simp
    then show "cell pv (Year r) (Name r) = Some (Some (real (Posts r)))"
      unfolding pv by (rule cell_pivot_table_present[OF d])
  qed
  show "year \<noteq> 2019" if "cell pv year country = Some (Some v)" for year country v
    using that unfolding pv cell_pivot_table by (auto split: if_splits)
  show "country \<in> set selected" if "cell pv year country = Some (Some v)" for year country v
    using that unfolding pv cell_pivot_table by (auto split: if_splits)
  show "\<exists>r \<in> set df_long. Year r = year \<and> Name r = country \<and> v = real (Posts r)"
    if c: "cell pv year country = Some (Some v)" for year country v
  proof -
    from c have m: "mean (map Posts (filter (\<lambda>r. Year r = year \<and> Name r = country) ?F)) = Some v"
      unfolding pv cell_pivot_table by (auto split: if_splits)
    from mean_Some[OF m] obtain r where r: "r \<in> set ?F" "Year r = year" "Name r = country"
      by (auto simp: filter_empty_conv)
    from cell_pivot_table_present[OF d r(1), of Posts] c
    have "v = real (Posts r)" unfolding pv r(2,3) by simp
    with r show ?thesis by auto
  qed
qed

lemma example_trend:
  "trend example_long [''A'', ''C''] =
     Some \<lparr>p_index = [2018, 2020, 2021], p_columns = [''A'', ''C''],
           p_values = [[Some 1, None], [Some 1, Some 3], [Some 1, None]]\<rparr>"
  by code_simp

theorem trend_of_selected_countries_without_2019_witness:
  "distinct (map (\<lambda>r. (Name r, Year r)) example_long)
   \<and> trend example_long [''A'', ''C''] =
     Some \<lparr>p_index = [2018, 2020, 2021], p_columns = [''A'', ''C''],
           p_values = [[Some 1, None], [Some 1, Some 3], [Some 1, None]]\<rparr>
   \<and> 2019 \<notin> set (p_index \<lparr>p_index = [2018, 2020, 2021 :: int], p_columns = [''A'', ''C''],
           p_values = [[Some 1, None], [Some 1, Some 3], [Some 1, None]]\<rparr>)
   \<and> cell \<lparr>p_index = [2018, 2020, 2021 :: int], p_columns = [''A'', ''C''],
           p_values = [[Some 1, None], [Some 1, Some 3], [Some 1, None]]\<rparr> 2020 ''C''
       = Some (Some 3)"
proof -
  have d: "distinct (map (\<lambda>r. (Name r, Year r)) example_long)"
    by (simp add: example_long_def)
  have c: "\<lparr>Year = 2020, Name = ''C'', Posts = 3\<rparr> \<in> set example_long"
    by (simp add: example_long_def)
  show ?thesis
    using trend_of_selected_countries_without_2019 [OF d, of "[''A'', ''C'']"] example_trend d c
    by fastforce
qed

text \<open>
  Claim C9, as it is stated, is about every set of excluded years. With 2018 as the one
  excluded year it asks for a pivot without the row 2018; the trend of \<open>A\<close> and \<open>C\<close> over
  the small sheet has that row, with the one post of \<open>A\<close> in it.
\<close>

theorem trend_keeps_the_year_2018:
  "trend example_long [''A'', ''C''] =
     Some \<lparr>p_index = [2018, 2020, 2021], p_columns = [''A'', ''C''],
           p_values = [[Some 1, None], [Some 1, Some 3], [Some 1, None]]\<rparr>
   \<and> 2018 \<in> set (p_index \<lparr>p_index = [2018, 2020, 2021 :: int], p_columns = [''A'', ''C''],
           p_values = [[Some 1, None], [Some 1, Some 3], [Some 1, None]]\<rparr>)
   \<and> cell \<lparr>p_index = [2018, 2020, 2021 :: int], p_columns = [''A'', ''C''],
           p_values = [[Some 1, None], [Some 1, Some 3], [Some 1, None]]\<rparr> 2018 ''A''
       = Some (Some 1)"
  by (simp add: example_trend cell_def)

end
